theory Spec2Isabelle
  imports Complex_Main
begin

section \<open>Hand tracker: data model\<close>

text \<open>
  The embedding follows \<^verbatim>\<open>HandTracker.tsx\<close>. A JavaScript number is modelled as a
  \<^typ>\<open>real\<close>: coordinates are finite, and rounding of IEEE doubles is not modelled. An
  optional number (\<^verbatim>\<open>z?: number\<close>) is a \<^typ>\<open>real option\<close>, \<open>None\<close> for
  \<^verbatim>\<open>undefined\<close>. The fields \<^verbatim>\<open>x\<close>, \<^verbatim>\<open>y\<close>, \<^verbatim>\<open>z\<close> of a landmark are the
  selectors \<open>lx\<close>, \<open>ly\<close>, \<open>lz\<close>.
\<close>

record HandLandmark =
  lx :: real
  ly :: real
  lz :: "real option"

record Hand =
  keypoints :: "HandLandmark list"
  handedness :: string
  score :: real

text \<open>
  Reading a property of \<^verbatim>\<open>undefined\<close> throws a \<^verbatim>\<open>TypeError\<close>; so does
  \<^verbatim>\<open>reduce\<close> of an empty array without an initial value.
\<close>

datatype error = TypeError

text \<open>
  \<^verbatim>\<open>smoothedLandmarksRef.current\<close> is an array indexed by the hand slot; a slot that was
  never written reads \<^verbatim>\<open>undefined\<close>. It is a map from slots to landmark arrays.
\<close>

type_synonym SmoothedLandmarks = "nat \<rightharpoonup> HandLandmark list"

record TrackerState =
  gestureHistoryRef :: "string list"
  smoothedLandmarksRef :: SmoothedLandmarks

text \<open>
  The values the callbacks close over: the two settings, and whether the canvas, the
  video element and the 2d context that \<^verbatim>\<open>drawAdvancedHands\<close> asks for are there.
\<close>

record Env =
  sensitivity :: real
  smoothing :: real
  canvasReady :: bool

text \<open>\<^verbatim>\<open>startTracking\<close> and \<^verbatim>\<open>resetTracking\<close> empty both refs.\<close>

definition startTracking :: TrackerState where
  "startTracking = \<lparr>gestureHistoryRef = [], smoothedLandmarksRef = Map.empty\<rparr>"

section \<open>Landmark smoother\<close>

text \<open>
  The condition \<^verbatim>\<open>prev.z && landmark.z\<close> is JavaScript truthiness: an optional number
  is truthy when it is present and not zero.
\<close>

definition truthy :: "real option \<Rightarrow> bool" where
  "truthy v = (case v of None \<Rightarrow> False | Some r \<Rightarrow> r \<noteq> 0)"

text \<open>The body of the \<^verbatim>\<open>map\<close> callback of \<^verbatim>\<open>smoothLandmarks\<close>, for one landmark.\<close>

definition smoothLandmark :: "real \<Rightarrow> HandLandmark \<Rightarrow> HandLandmark \<Rightarrow> HandLandmark" where
  "smoothLandmark a prev landmark =
     \<lparr>lx = lx prev * a + lx landmark * (1 - a),
      ly = ly prev * a + ly landmark * (1 - a),
      lz = (if truthy (lz prev) \<and> truthy (lz landmark)
            then (case (lz prev, lz landmark) of
                    (Some pz, Some cz) \<Rightarrow> Some (pz * a + cz * (1 - a))
                  | (_, cz) \<Rightarrow> cz)
            else lz landmark)\<rparr>"

text \<open>
  \<^verbatim>\<open>currentLandmarks.map((landmark, i) => ...)\<close> against the stored array: where the
  stored array is shorter, \<^verbatim>\<open>prev\<close> is \<^verbatim>\<open>undefined\<close> and \<^verbatim>\<open>prev.x\<close> throws.
\<close>

fun smoothAll :: "real \<Rightarrow> HandLandmark list \<Rightarrow> HandLandmark list \<Rightarrow> error + HandLandmark list" where
  "smoothAll a prevs [] = Inr []"
| "smoothAll a [] (landmark # rest) = Inl TypeError"
| "smoothAll a (prev # prevs) (landmark # rest) =
     (case smoothAll a prevs rest of
        Inl e \<Rightarrow> Inl e
      | Inr out \<Rightarrow> Inr (smoothLandmark a prev landmark # out))"

text \<open>
  \<^verbatim>\<open>smoothLandmarks(currentLandmarks, handIndex)\<close>: the new contents of the ref and the
  returned array. When the callback throws, the ref has not been assigned.
\<close>

definition smoothLandmarks ::
  "real \<Rightarrow> SmoothedLandmarks \<Rightarrow> HandLandmark list \<Rightarrow> nat
     \<Rightarrow> error + (SmoothedLandmarks \<times> HandLandmark list)" where
  "smoothLandmarks a ref currentLandmarks handIndex =
     (case ref handIndex of
        None \<Rightarrow> Inr (ref(handIndex \<mapsto> currentLandmarks), currentLandmarks)
      | Some prevs \<Rightarrow>
          (case smoothAll a prevs currentLandmarks of
             Inl e \<Rightarrow> Inl e
           | Inr smoothed \<Rightarrow> Inr (ref(handIndex \<mapsto> smoothed), smoothed)))"

section \<open>Finger geometry\<close>

text \<open>\<^verbatim>\<open>landmarks[i]\<close>: \<^verbatim>\<open>undefined\<close> past the end of the array.\<close>

definition nthOpt :: "'a list \<Rightarrow> nat \<Rightarrow> 'a option" where
  "nthOpt xs i = (if i < length xs then Some (xs ! i) else None)"

definition fingerJoints :: "nat list list" where
  "fingerJoints = [[1, 2, 3, 4], [5, 6, 7, 8], [9, 10, 11, 12], [13, 14, 15, 16], [17, 18, 19, 20]]"

text \<open>
  The angle at \<open>p2\<close> between \<open>p1\<close> and \<open>p3\<close>, in degrees. Where one of the two vectors
  has length zero the source divides zero by zero and the angle is \<^verbatim>\<open>NaN\<close>: that is
  \<open>None\<close> here.
\<close>

definition jointAngle :: "HandLandmark \<Rightarrow> HandLandmark \<Rightarrow> HandLandmark \<Rightarrow> real option" where
  "jointAngle p1 p2 p3 =
     (let v1x = lx p1 - lx p2; v1y = ly p1 - ly p2;
          v2x = lx p3 - lx p2; v2y = ly p3 - ly p2;
          dot = v1x * v2x + v1y * v2y;
          mag1 = sqrt (v1x * v1x + v1y * v1y);
          mag2 = sqrt (v2x * v2x + v2y * v2y)
      in if mag1 * mag2 = 0 then None
         else Some (arccos (dot / (mag1 * mag2)) * (180 / pi)))"

text \<open>
  The inner loop of \<^verbatim>\<open>calculateFingerAngles\<close> over one finger's joints: every window of
  three consecutive joints gives one angle. Reading \<^verbatim>\<open>.x\<close> of a missing landmark throws.
\<close>

fun fingerAngles :: "HandLandmark list \<Rightarrow> nat list \<Rightarrow> error + real option list" where
  "fingerAngles lms (j1 # j2 # j3 # js) =
     (case (nthOpt lms j1, nthOpt lms j2, nthOpt lms j3) of
        (Some p1, Some p2, Some p3) \<Rightarrow>
          (case fingerAngles lms (j2 # j3 # js) of
             Inl e \<Rightarrow> Inl e
           | Inr rest \<Rightarrow> Inr (jointAngle p1 p2 p3 # rest))
      | _ \<Rightarrow> Inl TypeError)"
| "fingerAngles lms js = Inr []"

fun allFingerAngles :: "HandLandmark list \<Rightarrow> nat list list \<Rightarrow> error + real option list list" where
  "allFingerAngles lms [] = Inr []"
| "allFingerAngles lms (joints # rest) =
     (case fingerAngles lms joints of
        Inl e \<Rightarrow> Inl e
      | Inr a \<Rightarrow>
          (case allFingerAngles lms rest of
             Inl e \<Rightarrow> Inl e
           | Inr as \<Rightarrow> Inr (a # as)))"

definition calculateFingerAngles :: "HandLandmark list \<Rightarrow> error + real option list list" where
  "calculateFingerAngles lms = allFingerAngles lms fingerJoints"

section \<open>Gesture classification\<close>

text \<open>
  \<^verbatim>\<open>Math.sqrt(Math.pow(p.x - q.x, 2) + Math.pow(p.y - q.y, 2))\<close>, the expression the
  fist, open hand, peace sign and OK sign branches compute.
\<close>

definition dist2d :: "HandLandmark \<Rightarrow> HandLandmark \<Rightarrow> real" where
  "dist2d p q = sqrt ((lx p - lx q) ^ 2 + (ly p - ly q) ^ 2)"

text \<open>The array \<^verbatim>\<open>extendedFingers\<close>: thumb, index, middle, ring, pinky.\<close>

definition extendedFingersOf :: "HandLandmark list \<Rightarrow> bool list" where
  "extendedFingersOf lms =
     [lx (lms ! 4) > lx (lms ! 2) + 20,
      ly (lms ! 8) < ly (lms ! 5) - 20,
      ly (lms ! 12) < ly (lms ! 9) - 20,
      ly (lms ! 16) < ly (lms ! 13) - 20,
      ly (lms ! 20) < ly (lms ! 17) - 20]"

text \<open>A natural number in decimal, as a template literal prints it.\<close>

definition digitChar :: "nat \<Rightarrow> char" where
  "digitChar d = ''0123456789'' ! d"

fun showNat :: "nat \<Rightarrow> string" where
  "showNat n = (if n < 10 then [digitChar n] else showNat (n div 10) @ [digitChar (n mod 10)])"

definition numberGesture :: "nat \<Rightarrow> string" where
  "numberGesture extendedCount =
     showNat extendedCount @ '' Finger'' @ (if extendedCount \<noteq> 1 then ''s'' else [])"

text \<open>
  The decision table of \<^verbatim>\<open>detectAdvancedGesture\<close>: the values of \<^verbatim>\<open>gesture\<close> and
  \<^verbatim>\<open>confidence\<close> after the chain of \<^verbatim>\<open>if\<close>/\<^verbatim>\<open>else if\<close>, before the
  sensitivity threshold. Both start as \<^verbatim>\<open>'Unknown'\<close> and \<open>0\<close>; the OK sign branch
  assigns only when the distance is below 30. The landmarks have 21 entries here
  (\<^verbatim>\<open>calculateFingerAngles\<close> has read all of them).
\<close>

definition selectGesture :: "HandLandmark list \<Rightarrow> string \<times> real" where
  "selectGesture lms =
     (let thumbTip = lms ! 4; indexTip = lms ! 8; middleTip = lms ! 12;
          pinkyTip = lms ! 20; wrist = lms ! 0;
          thumbExtended = extendedFingersOf lms ! 0;
          indexExtended = extendedFingersOf lms ! 1;
          middleExtended = extendedFingersOf lms ! 2;
          ringExtended = extendedFingersOf lms ! 3;
          pinkyExtended = extendedFingersOf lms ! 4;
          extendedCount = length (filter id (extendedFingersOf lms))
      in if extendedCount = 0 then
           (''Fist'', min 1 ((100 - dist2d indexTip wrist) / 50))
         else if extendedCount = 5 then
           (''Open Hand'', min 1 (dist2d thumbTip pinkyTip / 200))
         else if indexExtended \<and> \<not> middleExtended \<and> \<not> ringExtended \<and> \<not> pinkyExtended then
           (''Pointing'', if indexExtended then 0.9 else 0.5)
         else if indexExtended \<and> middleExtended \<and> \<not> ringExtended \<and> \<not> pinkyExtended then
           (''Peace Sign'', min 1 (dist2d indexTip middleTip / 50))
         else if thumbExtended \<and> \<not> indexExtended \<and> \<not> middleExtended \<and> \<not> ringExtended
                 \<and> \<not> pinkyExtended then
           (''Thumbs Up'', if thumbExtended then 0.85 else 0.4)
         else if thumbExtended \<and> indexExtended \<and> \<not> middleExtended \<and> \<not> ringExtended
                 \<and> \<not> pinkyExtended then
           (if dist2d thumbTip indexTip < 30 then (''OK Sign'', 0.8) else (''Unknown'', 0))
         else if indexExtended \<and> pinkyExtended \<and> \<not> middleExtended \<and> \<not> ringExtended then
           (''Rock Sign'', 0.75)
         else if thumbExtended \<and> pinkyExtended \<and> \<not> indexExtended \<and> \<not> middleExtended
                 \<and> \<not> ringExtended then
           (''Call Me'', 0.7)
         else (numberGesture extendedCount, 0.6))"

text \<open>The sensitivity threshold.\<close>

definition applySensitivity :: "real \<Rightarrow> string \<times> real \<Rightarrow> string \<times> real" where
  "applySensitivity sens gc = (if snd gc < sens then (''Uncertain'', 0) else gc)"

section \<open>Gesture history\<close>

text \<open>\<^verbatim>\<open>push\<close>, then \<^verbatim>\<open>shift\<close> once the history holds more than five labels.\<close>

definition pushHistory :: "string list \<Rightarrow> string \<Rightarrow> string list" where
  "pushHistory history g = (let h = history @ [g] in if length h > 5 then tl h else h)"

text \<open>
  \<^verbatim>\<open>gestureCount\<close> is an object used as a dictionary; \<^verbatim>\<open>Object.entries\<close> lists its
  keys in the order they were first assigned (no label of the classifier is an integer
  index or a property of \<^verbatim>\<open>Object.prototype\<close>). It is an association list in that
  order: a known key is counted in place, a new key goes to the end.
\<close>

fun bumpCount :: "(string \<times> nat) list \<Rightarrow> string \<Rightarrow> (string \<times> nat) list" where
  "bumpCount [] g = [(g, 0 + 1)]"
| "bumpCount ((k, n) # acc) g =
     (if k = g then (k, n + 1) # acc else (k, n) # bumpCount acc g)"

definition gestureCount :: "string list \<Rightarrow> (string \<times> nat) list" where
  "gestureCount history = foldl bumpCount [] history"

definition countOf :: "(string \<times> nat) list \<Rightarrow> string \<Rightarrow> nat" where
  "countOf counts k = (case map_of counts k of Some n \<Rightarrow> n | None \<Rightarrow> 0)"

text \<open>
  \<^verbatim>\<open>Object.entries(gestureCount).reduce((a, b) => gestureCount[a[0]] > gestureCount[b[0]] ? a : b)[0]\<close>:
  the first entry starts as the accumulator, and the accumulator is kept only where its
  count is strictly greater.
\<close>

definition mostCommon :: "(string \<times> nat) list \<Rightarrow> error + string" where
  "mostCommon counts =
     (case counts of
        [] \<Rightarrow> Inl TypeError
      | e # es \<Rightarrow>
          Inr (fst (foldl (\<lambda>a b. if countOf counts (fst a) > countOf counts (fst b) then a else b) e es)))"

section \<open>Per-frame processing\<close>

record HandData =
  landmarks :: "HandLandmark list"
  angles :: "real option list list"
  extendedFingers :: "bool list"
  hd_handedness :: string

record GestureResult =
  gesture :: string
  confidence :: real
  handData :: "HandData option"

text \<open>
  \<^verbatim>\<open>detectAdvancedGesture(hands)\<close>. The result pairs the state the call leaves behind
  with what it returns or throws: an assignment to a ref made before a throw stays.
\<close>

definition detectAdvancedGesture ::
  "Env \<Rightarrow> TrackerState \<Rightarrow> Hand list \<Rightarrow> TrackerState \<times> (error + GestureResult)" where
  "detectAdvancedGesture env s hands =
     (case hands of
        [] \<Rightarrow> (s, Inr \<lparr>gesture = ''No hands detected'', confidence = 0, handData = None\<rparr>)
      | hand # _ \<Rightarrow>
          (case smoothLandmarks (smoothing env) (smoothedLandmarksRef s) (keypoints hand) 0 of
             Inl e \<Rightarrow> (s, Inl e)
           | Inr (ref, lms) \<Rightarrow>
               (let s1 = s\<lparr>smoothedLandmarksRef := ref\<rparr> in
                case calculateFingerAngles lms of
                  Inl e \<Rightarrow> (s1, Inl e)
                | Inr angs \<Rightarrow>
                    (let gc = applySensitivity (sensitivity env) (selectGesture lms);
                         s2 = s1\<lparr>gestureHistoryRef := pushHistory (gestureHistoryRef s1) (fst gc)\<rparr>
                     in case mostCommon (gestureCount (gestureHistoryRef s2)) of
                          Inl e \<Rightarrow> (s2, Inl e)
                        | Inr common \<Rightarrow>
                            (s2, Inr \<lparr>gesture = common,
                                      confidence = max 0 (min 1 (snd gc)),
                                      handData = Some \<lparr>landmarks = lms, angles = angs,
                                                        extendedFingers = extendedFingersOf lms,
                                                        hd_handedness = handedness hand\<rparr>\<rparr>)))))"

text \<open>
  The values of \<^verbatim>\<open>gesture\<close> and \<^verbatim>\<open>confidence\<close> that \<^verbatim>\<open>detectAdvancedGesture\<close> holds
  for the first hand right after the decision table, before the sensitivity threshold and
  the history.
\<close>

definition rawGesture :: "Env \<Rightarrow> TrackerState \<Rightarrow> Hand \<Rightarrow> error + string \<times> real" where
  "rawGesture env s hand =
     (case smoothLandmarks (smoothing env) (smoothedLandmarksRef s) (keypoints hand) 0 of
        Inl e \<Rightarrow> Inl e
      | Inr (ref, lms) \<Rightarrow>
          (case calculateFingerAngles lms of
             Inl e \<Rightarrow> Inl e
           | Inr angs \<Rightarrow> Inr (selectGesture lms)))"

text \<open>
  The \<^verbatim>\<open>forEach\<close> of \<^verbatim>\<open>drawAdvancedHands\<close>: every hand is smoothed under its index,
  then drawn. Drawing reads the landmarks 0 to 20 and does not touch the tracker state.
\<close>

fun drawHands ::
  "real \<Rightarrow> SmoothedLandmarks \<Rightarrow> Hand list \<Rightarrow> nat \<Rightarrow> SmoothedLandmarks \<times> (error + unit)" where
  "drawHands a ref [] handIndex = (ref, Inr ())"
| "drawHands a ref (hand # rest) handIndex =
     (case smoothLandmarks a ref (keypoints hand) handIndex of
        Inl e \<Rightarrow> (ref, Inl e)
      | Inr (ref', lms) \<Rightarrow>
          if length lms < 21 then (ref', Inl TypeError)
          else drawHands a ref' rest (handIndex + 1))"

definition drawAdvancedHands :: "Env \<Rightarrow> TrackerState \<Rightarrow> Hand list \<Rightarrow> TrackerState \<times> (error + unit)" where
  "drawAdvancedHands env s hands =
     (if \<not> canvasReady env then (s, Inr ())
      else (case drawHands (smoothing env) (smoothedLandmarksRef s) hands 0 of
              (ref, r) \<Rightarrow> (s\<lparr>smoothedLandmarksRef := ref\<rparr>, r)))"

text \<open>
  One processed frame of \<^verbatim>\<open>detectHands\<close>, from the hands the detector returned: the state
  afterwards and the arguments of \<^verbatim>\<open>onGestureDetected\<close>, if it was called. A throw
  inside the \<^verbatim>\<open>try\<close> is caught and ends the frame.
\<close>

definition detectHands :: "Env \<Rightarrow> TrackerState \<Rightarrow> Hand list \<Rightarrow> TrackerState \<times> GestureResult option" where
  "detectHands env s hands =
     (if length hands > 0 then
        (case detectAdvancedGesture env s hands of
           (s1, Inl e) \<Rightarrow> (s1, None)
         | (s1, Inr r) \<Rightarrow> (fst (drawAdvancedHands env s1 hands), Some r))
      else
        (fst (drawAdvancedHands env s hands),
         Some \<lparr>gesture = ''No hands detected'', confidence = 0, handData = None\<rparr>))"

text \<open>
  The array stored for slot 0, if there is one, is at least as long as the hand's keypoints,
  so that \<^verbatim>\<open>smoothLandmarks\<close> finds a previous landmark for every current one. Frames of
  21 landmarks keep it so.
\<close>

definition slotFits :: "TrackerState \<Rightarrow> Hand \<Rightarrow> bool" where
  "slotFits s hand =
     (case smoothedLandmarksRef s 0 of
        None \<Rightarrow> True
      | Some prevs \<Rightarrow> length (keypoints hand) \<le> length prevs)"

text \<open>A run of processed frames.\<close>

definition run :: "Env \<Rightarrow> TrackerState \<Rightarrow> Hand list list \<Rightarrow> TrackerState" where
  "run env s frames = foldl (\<lambda>st hands. fst (detectHands env st hands)) s frames"

text \<open>The settings a fresh component starts with, with the canvas in place.\<close>

definition defaultEnv :: Env where
  "defaultEnv = \<lparr>sensitivity = 0.7, smoothing = 0.8, canvasReady = True\<rparr>"

section \<open>Example frames\<close>

text \<open>
  Frames of 21 landmarks without \<^verbatim>\<open>z\<close>, used to run the definitions. Landmark 0 is the
  wrist, 2 and 4 the thumb's base joint and tip, 5 and 8 the index finger's, 9 and 12 the
  middle finger's, 13 and 16 the ring finger's, 17 and 20 the little finger's.
\<close>

definition pt :: "real \<Rightarrow> real \<Rightarrow> HandLandmark" where
  "pt px py = \<lparr>lx = px, ly = py, lz = None\<rparr>"

definition origin :: HandLandmark where
  "origin = pt 0 0"

text \<open>No finger extended, index tip on the wrist.\<close>

definition fistKeypoints :: "HandLandmark list" where
  "fistKeypoints =
     [
      origin, origin, origin, origin, origin, origin, origin,
      origin, origin, origin, origin, origin, origin, origin,
      origin, origin, origin, origin, origin, origin, origin]"

definition fistHand :: Hand where
  "fistHand = \<lparr>keypoints = fistKeypoints, handedness = ''Right'', score = 1\<rparr>"

text \<open>Only the index finger extended.\<close>

definition pointingKeypoints :: "HandLandmark list" where
  "pointingKeypoints =
     [
      origin, origin, origin, origin, origin, origin, origin,
      origin, pt 0 (-100), origin, origin, origin, origin, origin,
      origin, origin, origin, origin, origin, origin, origin]"

definition pointingHand :: Hand where
  "pointingHand = \<lparr>keypoints = pointingKeypoints, handedness = ''Right'', score = 1\<rparr>"

text \<open>Only the thumb extended.\<close>

definition thumbsUpKeypoints :: "HandLandmark list" where
  "thumbsUpKeypoints =
     [
      origin, origin, origin, origin, pt 30 0, origin, origin,
      origin, origin, origin, origin, origin, origin, origin,
      origin, origin, origin, origin, origin, origin, origin]"

definition thumbsUpHand :: Hand where
  "thumbsUpHand = \<lparr>keypoints = thumbsUpKeypoints, handedness = ''Right'', score = 1\<rparr>"

text \<open>Thumb and index finger extended, their tips touching.\<close>

definition okSignKeypoints :: "HandLandmark list" where
  "okSignKeypoints =
     [
      origin, origin, origin, origin, pt 30 0, pt 30 30, origin,
      origin, pt 30 0, origin, origin, origin, origin, origin,
      origin, origin, origin, origin, origin, origin, origin]"

definition okSignHand :: Hand where
  "okSignHand = \<lparr>keypoints = okSignKeypoints, handedness = ''Right'', score = 1\<rparr>"

text \<open>Index, middle and ring finger extended, far above their base joints.\<close>

definition threeFingerKeypoints :: "HandLandmark list" where
  "threeFingerKeypoints =
     [
      origin, origin, origin, origin, origin, origin, origin,
      origin, pt 0 (-1000), origin, origin, origin, pt 0 (-1000), origin,
      origin, origin, pt 0 (-1000), origin, origin, origin, origin]"

definition threeFingerHand :: Hand where
  "threeFingerHand = \<lparr>keypoints = threeFingerKeypoints, handedness = ''Right'', score = 1\<rparr>"

text \<open>The fist frame with a depth \<open>d\<close> given for the wrist.\<close>

definition depthKeypoints :: "real \<Rightarrow> HandLandmark list" where
  "depthKeypoints d = fistKeypoints[0 := \<lparr>lx = 0, ly = 0, lz = Some d\<rparr>]"

text \<open>The default sensitivity with smoothing switched off (the slider's minimum).\<close>

definition unsmoothedEnv :: Env where
  "unsmoothedEnv = \<lparr>sensitivity = 0.7, smoothing = 0, canvasReady = True\<rparr>"

section \<open>Lemmas about the definitions\<close>

subsection \<open>Landmark smoother\<close>

lemma smoothAll_ok:
  "length cur \<le> length prevs \<Longrightarrow> smoothAll a prevs cur = Inr (map2 (smoothLandmark a) prevs cur)"
  by (induction a prevs cur rule: smoothAll.induct) simp_all

lemma smoothAll_length: "smoothAll a prevs cur = Inr out \<Longrightarrow> length out = length cur"
  by (induction a prevs cur arbitrary: out rule: smoothAll.induct) (auto split: sum.splits)

lemma smoothLandmarks_first:
  "ref i = None \<Longrightarrow> smoothLandmarks a ref cur i = Inr (ref(i \<mapsto> cur), cur)"
  by (simp add: smoothLandmarks_def)

lemma smoothLandmarks_next:
  assumes "ref i = Some prevs" and "length cur \<le> length prevs"
  shows "smoothLandmarks a ref cur i =
           Inr (ref(i \<mapsto> map2 (smoothLandmark a) prevs cur), map2 (smoothLandmark a) prevs cur)"
  using assms by (simp add: smoothLandmarks_def smoothAll_ok)

lemma smoothLandmarks_result:
  assumes "smoothLandmarks a ref cur i = Inr (ref', out)"
  shows "ref' = ref(i \<mapsto> out) \<and> length out = length cur"
  using assms
  by (auto simp: smoothLandmarks_def smoothAll_length split: option.splits sum.splits)

lemma smoothLandmarks_slot:
  "ref1 i = ref2 i \<Longrightarrow>
     map_sum id snd (smoothLandmarks a ref1 cur i) = map_sum id snd (smoothLandmarks a ref2 cur i)"
  by (simp add: smoothLandmarks_def split: option.splits sum.splits)

lemma slotFits_smooth:
  assumes "slotFits s hand"
  shows "\<exists>out. smoothLandmarks a (smoothedLandmarksRef s) (keypoints hand) 0 =
                 Inr ((smoothedLandmarksRef s)(0 \<mapsto> out), out)"
proof (cases "smoothedLandmarksRef s 0")
  case None
  then show ?thesis by (simp add: smoothLandmarks_first)
next
  case (Some prevs)
  with assms have "length (keypoints hand) \<le> length prevs" by (simp add: slotFits_def)
  with Some show ?thesis by (simp add: smoothLandmarks_next)
qed

lemma smoothLandmark_z:
  "lz (smoothLandmark a prev cur) =
     (case (lz prev, lz cur) of
        (Some pz, Some cz) \<Rightarrow> if pz \<noteq> 0 \<and> cz \<noteq> 0 then Some (pz * a + cz * (1 - a)) else Some cz
      | (_, cz) \<Rightarrow> cz)"
  by (simp add: smoothLandmark_def truthy_def split: option.splits)

lemma smoothLandmark_same: "smoothLandmark a k k = k"
  by (cases k) (auto simp: smoothLandmark_def truthy_def algebra_simps split: option.splits)

lemma map2_smoothLandmark_same: "map2 (smoothLandmark a) ks ks = ks"
  by (induction ks) (simp_all add: smoothLandmark_same)

lemma smooth_same:
  "smoothLandmarks a [0 \<mapsto> ks] ks 0 = Inr ([0 \<mapsto> ks], ks)"
  by (simp add: smoothLandmarks_next map2_smoothLandmark_same)

lemma smoothLandmark_zero: "smoothLandmark 0 p l = l"
  by (cases l) (auto simp: smoothLandmark_def truthy_def split: option.splits)

lemma map2_smoothLandmark_zero:
  "length ls \<le> length ps \<Longrightarrow> map2 (smoothLandmark 0) ps ls = ls"
proof (induction ps arbitrary: ls)
  case Nil
  then show ?case by simp
next
  case (Cons p ps)
  then show ?case by (cases ls) (simp_all add: smoothLandmark_zero)
qed

subsection \<open>Finger geometry and the decision table\<close>

lemma calculateFingerAngles_ok:
  "21 \<le> length lms \<Longrightarrow> \<exists>angs. calculateFingerAngles lms = Inr angs"
  by (simp add: calculateFingerAngles_def fingerJoints_def nthOpt_def)

lemma calculateFingerAngles_short:
  "length lms < 21 \<Longrightarrow> calculateFingerAngles lms = Inl TypeError"
  by (simp add: calculateFingerAngles_def fingerJoints_def nthOpt_def split: sum.splits)

lemma showNat_nonempty: "1 \<le> length (showNat n)"
  by (induction n rule: showNat.induct) (subst showNat.simps, simp)

lemma numberGesture_not_Unknown: "numberGesture n \<noteq> ''Unknown''"
proof
  assume "numberGesture n = ''Unknown''"
  then have "length (numberGesture n) = 7" by simp
  moreover have "8 \<le> length (numberGesture n)"
    using showNat_nonempty [of n] by (simp add: numberGesture_def)
  ultimately show False by simp
qed

lemma selectGesture_not_Unknown: "fst (selectGesture lms) \<noteq> ''Unknown''"
  by (simp add: selectGesture_def Let_def numberGesture_not_Unknown)

lemma selectGesture_thumb_index:
  assumes "extendedFingersOf lms = [True, True, False, False, False]"
  shows "selectGesture lms = (''Pointing'', 9/10)"
  using assms by (simp add: selectGesture_def Let_def)

subsection \<open>Gesture history\<close>

lemma pushHistory_nonempty: "pushHistory h g \<noteq> []"
  by (cases h) (auto simp: pushHistory_def Let_def)

lemma pushHistory_last: "last (pushHistory h g) = g"
  by (cases h) (auto simp: pushHistory_def Let_def last_tl)

lemma bumpCount_nonempty: "bumpCount acc g \<noteq> []"
  by (cases acc) (auto split: if_splits)

lemma gestureCount_snoc: "gestureCount (h @ [g]) = bumpCount (gestureCount h) g"
  by (simp add: gestureCount_def)

lemma gestureCount_nonempty: "h \<noteq> [] \<Longrightarrow> gestureCount h \<noteq> []"
  by (cases h rule: rev_cases) (simp_all add: gestureCount_snoc bumpCount_nonempty)

lemma mostCommon_ok: "counts \<noteq> [] \<Longrightarrow> \<exists>r. mostCommon counts = Inr r"
  by (cases counts) (simp_all add: mostCommon_def)

lemma mostCommon_pushHistory: "\<exists>r. mostCommon (gestureCount (pushHistory h g)) = Inr r"
  by (simp add: mostCommon_ok gestureCount_nonempty pushHistory_nonempty)

lemma keys_bumpCount:
  "map fst (bumpCount acc g) = (if g \<in> set (map fst acc) then map fst acc else map fst acc @ [g])"
  by (induction acc g rule: bumpCount.induct) auto

lemma countOf_bumpCount:
  "countOf (bumpCount acc g) k = countOf acc k + (if k = g then 1 else 0)"
  by (induction acc g rule: bumpCount.induct) (auto simp: countOf_def)

lemma keys_gestureCount: "map fst (gestureCount h) = rev (remdups (rev h))"
proof (induction h rule: rev_induct)
  case Nil
  show ?case by (simp add: gestureCount_def)
next
  case (snoc g h)
  have "set (map fst (gestureCount h)) = set h"
    unfolding snoc.IH by simp
  then show ?case
    by (simp add: gestureCount_snoc keys_bumpCount snoc.IH)
qed

lemma countOf_gestureCount: "countOf (gestureCount h) k = count_list h k"
proof (induction h rule: rev_induct)
  case Nil
  show ?case by (simp add: gestureCount_def countOf_def)
next
  case (snoc g h)
  then show ?case
    by (auto simp: gestureCount_snoc countOf_bumpCount)
qed

lemma reduce_keeps_last_maximum:
  fixes f :: "'a \<Rightarrow> nat"
  shows "\<exists>l1 l2. e # es = l1 @ foldl (\<lambda>a b. if f a > f b then a else b) e es # l2 \<and>
           (\<forall>x\<in>set l1. f x \<le> f (foldl (\<lambda>a b. if f a > f b then a else b) e es)) \<and>
           (\<forall>x\<in>set l2. f x < f (foldl (\<lambda>a b. if f a > f b then a else b) e es))"
proof (induction es rule: rev_induct)
  case Nil
  have "e # [] = [] @ foldl (\<lambda>a b. if f a > f b then a else b) e [] # [] \<and>
        (\<forall>x\<in>set []. f x \<le> f (foldl (\<lambda>a b. if f a > f b then a else b) e [])) \<and>
        (\<forall>x\<in>set []. f x < f (foldl (\<lambda>a b. if f a > f b then a else b) e []))"
    by simp
  then show ?case by blast
next
  case (snoc b es)
  let ?step = "\<lambda>a b. if f a > f b then a else b"
  let ?r = "foldl ?step e es"
  from snoc obtain l1 l2 where
    sp: "e # es = l1 @ ?r # l2" and lo: "\<forall>x\<in>set l1. f x \<le> f ?r" and hi: "\<forall>x\<in>set l2. f x < f ?r"
    by blast
  show ?case
  proof (cases "f ?r > f b")
    case True
    then have "e # (es @ [b]) = l1 @ foldl ?step e (es @ [b]) # (l2 @ [b]) \<and>
        (\<forall>x\<in>set l1. f x \<le> f (foldl ?step e (es @ [b]))) \<and>
        (\<forall>x\<in>set (l2 @ [b]). f x < f (foldl ?step e (es @ [b])))"
      using sp lo hi by simp
    then show ?thesis by blast
  next
    case False
    then have le: "f ?r \<le> f b" by simp
    have "\<forall>x\<in>set (l1 @ ?r # l2). f x \<le> f b"
      using lo hi le by fastforce
    with False have "e # (es @ [b]) = (l1 @ ?r # l2) @ foldl ?step e (es @ [b]) # [] \<and>
        (\<forall>x\<in>set (l1 @ ?r # l2). f x \<le> f (foldl ?step e (es @ [b]))) \<and>
        (\<forall>x\<in>set []. f x < f (foldl ?step e (es @ [b])))"
      using sp by simp
    then show ?thesis by blast
  qed
qed

subsection \<open>One call of detectAdvancedGesture\<close>

lemma detectAdvancedGesture_Nil:
  "detectAdvancedGesture env s [] =
     (s, Inr \<lparr>gesture = ''No hands detected'', confidence = 0, handData = None\<rparr>)"
  by (simp add: detectAdvancedGesture_def)

lemma detect_step:
  assumes sm: "smoothLandmarks (smoothing env) (smoothedLandmarksRef s) (keypoints hand) 0 = Inr (ref, lms)"
    and len: "21 \<le> length (keypoints hand)"
  shows "\<exists>common angs.
           mostCommon (gestureCount
               (pushHistory (gestureHistoryRef s)
                  (fst (applySensitivity (sensitivity env) (selectGesture lms))))) = Inr common \<and>
           detectAdvancedGesture env s (hand # hs) =
             (\<lparr>gestureHistoryRef = pushHistory (gestureHistoryRef s)
                  (fst (applySensitivity (sensitivity env) (selectGesture lms))),
               smoothedLandmarksRef = ref\<rparr>,
              Inr \<lparr>gesture = common,
                   confidence = max 0 (min 1 (snd (applySensitivity (sensitivity env) (selectGesture lms)))),
                   handData = Some \<lparr>landmarks = lms, angles = angs,
                                     extendedFingers = extendedFingersOf lms,
                                     hd_handedness = handedness hand\<rparr>\<rparr>)"
proof -
  have "length lms = length (keypoints hand)"
    using smoothLandmarks_result [OF sm] by simp
  with len obtain angs where a: "calculateFingerAngles lms = Inr angs"
    using calculateFingerAngles_ok [of lms] by auto
  obtain common where c: "mostCommon (gestureCount
               (pushHistory (gestureHistoryRef s)
                  (fst (applySensitivity (sensitivity env) (selectGesture lms))))) = Inr common"
    using mostCommon_pushHistory by blast
  show ?thesis
    using sm a c by (simp add: detectAdvancedGesture_def Let_def)
qed

lemma detect_emitted:
  assumes sm: "smoothLandmarks (smoothing env) (smoothedLandmarksRef s) (keypoints hand) 0 = Inr (ref, lms)"
    and len: "21 \<le> length (keypoints hand)"
    and mc: "mostCommon (gestureCount (pushHistory (gestureHistoryRef s)
                (fst (applySensitivity (sensitivity env) (selectGesture lms))))) = Inr common"
  shows "map_sum id gesture (snd (detectAdvancedGesture env s (hand # hs))) = Inr common \<and>
         map_sum id confidence (snd (detectAdvancedGesture env s (hand # hs))) =
           Inr (max 0 (min 1 (snd (applySensitivity (sensitivity env) (selectGesture lms)))))"
  using detect_step [OF sm len, of hs] mc by auto

lemma detect_confidence_bounds:
  "detectAdvancedGesture env s hands = (s', Inr r) \<Longrightarrow> 0 \<le> confidence r \<and> confidence r \<le> 1"
  by (auto simp: detectAdvancedGesture_def Let_def split: list.splits sum.splits)

lemma rawGesture_step:
  assumes sm: "smoothLandmarks (smoothing env) (smoothedLandmarksRef s) (keypoints hand) 0 = Inr (ref, lms)"
    and len: "21 \<le> length (keypoints hand)"
  shows "rawGesture env s hand = Inr (selectGesture lms)"
proof -
  have "length lms = length (keypoints hand)"
    using smoothLandmarks_result [OF sm] by simp
  with len obtain angs where a: "calculateFingerAngles lms = Inr angs"
    using calculateFingerAngles_ok [of lms] by auto
  show ?thesis using sm a by (simp add: rawGesture_def)
qed

lemma rawGesture_Inr:
  assumes "rawGesture env s hand = Inr gc"
  shows "\<exists>ref lms. smoothLandmarks (smoothing env) (smoothedLandmarksRef s) (keypoints hand) 0 = Inr (ref, lms)
           \<and> 21 \<le> length (keypoints hand) \<and> gc = selectGesture lms"
proof (cases "smoothLandmarks (smoothing env) (smoothedLandmarksRef s) (keypoints hand) 0")
  case (Inl e)
  with assms show ?thesis by (simp add: rawGesture_def)
next
  case (Inr p)
  obtain ref lms where p: "p = (ref, lms)" by (cases p)
  have len: "length lms = length (keypoints hand)"
    using smoothLandmarks_result Inr p by blast
  have "\<not> length lms < 21"
  proof
    assume "length lms < 21"
    then have "calculateFingerAngles lms = Inl TypeError" by (rule calculateFingerAngles_short)
    with assms Inr p show False by (simp add: rawGesture_def)
  qed
  moreover have "gc = selectGesture lms"
    using assms Inr p by (simp add: rawGesture_def split: sum.splits)
  ultimately show ?thesis using Inr p len by simp
qed

lemma rawGesture_not_Unknown:
  assumes "rawGesture env s hand = Inr (g, c)"
  shows "g \<noteq> ''Unknown''"
proof -
  obtain lms where "(g, c) = selectGesture lms"
    using rawGesture_Inr [OF assms] by blast
  then have "g = fst (selectGesture lms)"
    by (metis fst_conv)
  then show ?thesis
    by (simp add: selectGesture_not_Unknown)
qed

subsection \<open>Drawing and one processed frame\<close>

lemma drawHands_below:
  "j < i \<Longrightarrow> fst (drawHands a ref hs i) j = ref j"
proof (induction hs arbitrary: ref i)
  case Nil
  then show ?case by simp
next
  case (Cons hand rest)
  show ?case
  proof (cases "smoothLandmarks a ref (keypoints hand) i")
    case (Inl e)
    then show ?thesis by simp
  next
    case (Inr p)
    obtain ref' lms where p: "p = (ref', lms)" by (cases p)
    have r: "ref' = ref(i \<mapsto> lms)"
      using smoothLandmarks_result Inr p by blast
    have "fst (drawHands a ref' rest (i + 1)) j = ref' j"
      using Cons.IH [of "i + 1" ref'] Cons.prems by simp
    with r Cons.prems show ?thesis
      using Inr p by simp
  qed
qed

lemma drawHands_head:
  assumes "smoothLandmarks a ref (keypoints hand) 0 = Inr (ref', lms)"
  shows "fst (drawHands a ref (hand # rest) 0) 0 = Some lms"
proof -
  have r: "ref' = ref(0 \<mapsto> lms)"
    using smoothLandmarks_result assms by blast
  show ?thesis
  proof (cases "length lms < 21")
    case True
    with assms r show ?thesis by simp
  next
    case False
    have "fst (drawHands a ref' rest 1) 0 = ref' 0"
      by (rule drawHands_below) simp
    with assms r False show ?thesis by simp
  qed
qed

lemma drawAdvancedHands_history:
  "gestureHistoryRef (fst (drawAdvancedHands env s hands)) = gestureHistoryRef s"
  by (simp add: drawAdvancedHands_def split: prod.splits)

lemma drawAdvancedHands_Nil: "drawAdvancedHands env s [] = (s, Inr ())"
  by (simp add: drawAdvancedHands_def)

lemma drawAdvancedHands_slot0:
  assumes "canvasReady env"
    and "smoothLandmarks (smoothing env) (smoothedLandmarksRef s) (keypoints hand) 0 = Inr (ref', lms)"
  shows "smoothedLandmarksRef (fst (drawAdvancedHands env s (hand # rest))) 0 = Some lms"
proof -
  obtain ref2 r where d: "drawHands (smoothing env) (smoothedLandmarksRef s) (hand # rest) 0 = (ref2, r)"
    by (cases "drawHands (smoothing env) (smoothedLandmarksRef s) (hand # rest) 0")
  have "fst (drawHands (smoothing env) (smoothedLandmarksRef s) (hand # rest) 0) 0 = Some lms"
    using assms(2) by (rule drawHands_head)
  then have "ref2 0 = Some lms"
    unfolding d by simp
  with assms(1) show ?thesis
    unfolding drawAdvancedHands_def d by simp
qed

lemma drawAdvancedHands_single:
  assumes "canvasReady env"
    and "smoothLandmarks (smoothing env) (smoothedLandmarksRef s) (keypoints hand) 0 = Inr (ref', lms)"
    and "21 \<le> length (keypoints hand)"
  shows "fst (drawAdvancedHands env s [hand]) = s\<lparr>smoothedLandmarksRef := ref'\<rparr>"
proof -
  have "length lms = length (keypoints hand)"
    using smoothLandmarks_result [OF assms(2)] by simp
  with assms show ?thesis
    by (simp add: drawAdvancedHands_def)
qed

lemma detectHands_Nil:
  "detectHands env s [] = (s, Some \<lparr>gesture = ''No hands detected'', confidence = 0, handData = None\<rparr>)"
  by (simp add: detectHands_def drawAdvancedHands_Nil)

lemma detectHands_step:
  assumes sm: "smoothLandmarks (smoothing env) (smoothedLandmarksRef s) (keypoints hand) 0 = Inr (ref, lms)"
    and len: "21 \<le> length (keypoints hand)"
  shows "\<exists>r. detectHands env s (hand # hs) =
               (fst (drawAdvancedHands env
                  \<lparr>gestureHistoryRef = pushHistory (gestureHistoryRef s)
                      (fst (applySensitivity (sensitivity env) (selectGesture lms))),
                   smoothedLandmarksRef = ref\<rparr> (hand # hs)), Some r) \<and>
             mostCommon (gestureCount
               (pushHistory (gestureHistoryRef s)
                  (fst (applySensitivity (sensitivity env) (selectGesture lms))))) = Inr (gesture r) \<and>
             confidence r = max 0 (min 1 (snd (applySensitivity (sensitivity env) (selectGesture lms))))"
proof -
  from detect_step [OF sm len, of hs] obtain common angs where
    c: "mostCommon (gestureCount
               (pushHistory (gestureHistoryRef s)
                  (fst (applySensitivity (sensitivity env) (selectGesture lms))))) = Inr common"
    and d: "detectAdvancedGesture env s (hand # hs) =
             (\<lparr>gestureHistoryRef = pushHistory (gestureHistoryRef s)
                  (fst (applySensitivity (sensitivity env) (selectGesture lms))),
               smoothedLandmarksRef = ref\<rparr>,
              Inr \<lparr>gesture = common,
                   confidence = max 0 (min 1 (snd (applySensitivity (sensitivity env) (selectGesture lms)))),
                   handData = Some \<lparr>landmarks = lms, angles = angs,
                                     extendedFingers = extendedFingersOf lms,
                                     hd_handedness = handedness hand\<rparr>\<rparr>)"
    by blast
  show ?thesis
    using c by (simp add: detectHands_def d)
qed

lemma detectHands_single:
  assumes cr: "canvasReady env" and len: "21 \<le> length (keypoints hand)"
    and sm1: "smoothLandmarks (smoothing env) (smoothedLandmarksRef s) (keypoints hand) 0 = Inr (refa, la)"
    and sm2: "smoothLandmarks (smoothing env) refa (keypoints hand) 0 = Inr (refb, lb)"
  shows "fst (detectHands env s [hand]) =
           \<lparr>gestureHistoryRef = pushHistory (gestureHistoryRef s)
                (fst (applySensitivity (sensitivity env) (selectGesture la))),
            smoothedLandmarksRef = refb\<rparr>"
proof -
  obtain r where d: "detectHands env s [hand] =
               (fst (drawAdvancedHands env
                  \<lparr>gestureHistoryRef = pushHistory (gestureHistoryRef s)
                      (fst (applySensitivity (sensitivity env) (selectGesture la))),
                   smoothedLandmarksRef = refa\<rparr> [hand]), Some r)"
    using detectHands_step [OF sm1 len, of "[]"] by blast
  show ?thesis
    unfolding d
    using drawAdvancedHands_single [where env = env and hand = hand and ref' = refb and lms = lb
        and s = "\<lparr>gestureHistoryRef = pushHistory (gestureHistoryRef s)
                      (fst (applySensitivity (sensitivity env) (selectGesture la))),
                   smoothedLandmarksRef = refa\<rparr>"] cr len sm2
    by simp
qed

lemma detectHands_emitted:
  assumes sm: "smoothLandmarks (smoothing env) (smoothedLandmarksRef s) (keypoints hand) 0 = Inr (ref, lms)"
    and len: "21 \<le> length (keypoints hand)"
    and mc: "mostCommon (gestureCount (pushHistory (gestureHistoryRef s)
                (fst (applySensitivity (sensitivity env) (selectGesture lms))))) = Inr common"
  shows "map_option gesture (snd (detectHands env s (hand # hs))) = Some common \<and>
         map_option confidence (snd (detectHands env s (hand # hs))) =
           Some (max 0 (min 1 (snd (applySensitivity (sensitivity env) (selectGesture lms)))))"
  using detectHands_step [OF sm len, of hs] mc by auto

lemma frame_first:
  assumes "canvasReady env" and "21 \<le> length (keypoints hand)"
    and "fst (applySensitivity (sensitivity env) (selectGesture (keypoints hand))) = g"
  shows "fst (detectHands env startTracking [hand]) =
           \<lparr>gestureHistoryRef = [g], smoothedLandmarksRef = [0 \<mapsto> keypoints hand]\<rparr>"
  using detectHands_single [where env = env and hand = hand and s = startTracking
      and la = "keypoints hand" and lb = "keypoints hand"
      and refa = "[0 \<mapsto> keypoints hand]" and refb = "[0 \<mapsto> keypoints hand]"] assms
  by (simp add: startTracking_def smoothLandmarks_first smooth_same pushHistory_def)

lemma frame_repeat:
  assumes "canvasReady env" and "21 \<le> length (keypoints hand)"
    and "fst (applySensitivity (sensitivity env) (selectGesture (keypoints hand))) = g"
  shows "fst (detectHands env
                \<lparr>gestureHistoryRef = h, smoothedLandmarksRef = [0 \<mapsto> keypoints hand]\<rparr> [hand]) =
           \<lparr>gestureHistoryRef = pushHistory h g, smoothedLandmarksRef = [0 \<mapsto> keypoints hand]\<rparr>"
  using detectHands_single [where env = env and hand = hand
      and s = "\<lparr>gestureHistoryRef = h, smoothedLandmarksRef = [0 \<mapsto> keypoints hand]\<rparr>"
      and la = "keypoints hand" and lb = "keypoints hand"
      and refa = "[0 \<mapsto> keypoints hand]" and refb = "[0 \<mapsto> keypoints hand]"] assms
  by (simp add: smooth_same)

lemma frame_unsmoothed:
  assumes "canvasReady env" and "smoothing env = 0" and "21 \<le> length (keypoints hand)"
    and "smoothedLandmarksRef s 0 = Some prevs" and "length (keypoints hand) \<le> length prevs"
    and "fst (applySensitivity (sensitivity env) (selectGesture (keypoints hand))) = g"
  shows "fst (detectHands env s [hand]) =
           \<lparr>gestureHistoryRef = pushHistory (gestureHistoryRef s) g,
            smoothedLandmarksRef = (smoothedLandmarksRef s)(0 \<mapsto> keypoints hand)\<rparr>"
proof -
  have a: "smoothLandmarks (smoothing env) (smoothedLandmarksRef s) (keypoints hand) 0 =
             Inr ((smoothedLandmarksRef s)(0 \<mapsto> keypoints hand), keypoints hand)"
    using assms(2,4,5) by (simp add: smoothLandmarks_next map2_smoothLandmark_zero)
  have b: "smoothLandmarks (smoothing env) ((smoothedLandmarksRef s)(0 \<mapsto> keypoints hand))
             (keypoints hand) 0 =
             Inr ((smoothedLandmarksRef s)(0 \<mapsto> keypoints hand), keypoints hand)"
    using assms(2) by (simp add: smoothLandmarks_next map2_smoothLandmark_zero)
  show ?thesis
    using detectHands_single [OF assms(1) assms(3) a b] assms(6) by simp
qed

lemma run_three_empty: "run env s [[], [], []] = s"
  by (simp add: run_def detectHands_Nil)

subsection \<open>The example frames\<close>

lemma okSign_len: "length okSignKeypoints = 21"
  by (simp add: okSignKeypoints_def)

lemma pointing_len: "length pointingKeypoints = 21"
  by (simp add: pointingKeypoints_def)

lemma fist_len: "length fistKeypoints = 21"
  by (simp add: fistKeypoints_def)

lemma thumbsUp_len: "length thumbsUpKeypoints = 21"
  by (simp add: thumbsUpKeypoints_def)

lemma threeFinger_len: "length threeFingerKeypoints = 21"
  by (simp add: threeFingerKeypoints_def)

lemma hand_keypoints:
  "keypoints pointingHand = pointingKeypoints" "keypoints fistHand = fistKeypoints"
  "keypoints thumbsUpHand = thumbsUpKeypoints"
  by (simp_all add: pointingHand_def fistHand_def thumbsUpHand_def)

lemma defaultEnv_simps:
  "sensitivity defaultEnv = 7/10" "smoothing defaultEnv = 4/5" "canvasReady defaultEnv"
  by (simp_all add: defaultEnv_def)

lemma unsmoothedEnv_simps:
  "sensitivity unsmoothedEnv = 7/10" "smoothing unsmoothedEnv = 0" "canvasReady unsmoothedEnv"
  by (simp_all add: unsmoothedEnv_def)

lemma okSign_extended: "extendedFingersOf okSignKeypoints = [True, True, False, False, False]"
  by (simp add: extendedFingersOf_def okSignKeypoints_def origin_def pt_def)

lemma select_pointing: "selectGesture pointingKeypoints = (''Pointing'', 9/10)"
  by (simp add: selectGesture_def extendedFingersOf_def pointingKeypoints_def origin_def pt_def Let_def)

lemma select_fist: "selectGesture fistKeypoints = (''Fist'', 1)"
  by (simp add: selectGesture_def extendedFingersOf_def fistKeypoints_def origin_def pt_def Let_def dist2d_def)

lemma select_thumbsUp: "selectGesture thumbsUpKeypoints = (''Thumbs Up'', 85/100)"
  by (simp add: selectGesture_def extendedFingersOf_def thumbsUpKeypoints_def origin_def pt_def Let_def)

lemma gate_pointing:
  "fst (applySensitivity (sensitivity unsmoothedEnv) (selectGesture (keypoints pointingHand))) = ''Pointing''"
  by (simp add: pointingHand_def select_pointing applySensitivity_def unsmoothedEnv_simps)

lemma gate_fist:
  "fst (applySensitivity (sensitivity unsmoothedEnv) (selectGesture (keypoints fistHand))) = ''Fist''"
  by (simp add: fistHand_def select_fist applySensitivity_def unsmoothedEnv_simps)

lemma gate_thumbsUp:
  "fst (applySensitivity (sensitivity unsmoothedEnv) (selectGesture (keypoints thumbsUpHand))) = ''Thumbs Up''"
  by (simp add: thumbsUpHand_def select_thumbsUp applySensitivity_def unsmoothedEnv_simps)

lemma mostCommon_P: "mostCommon (gestureCount [''Pointing'']) = Inr ''Pointing''"
  by (simp add: mostCommon_def gestureCount_def countOf_def)

lemma mostCommon_PPU: "mostCommon (gestureCount [''Pointing'', ''Pointing'', ''Uncertain'']) = Inr ''Pointing''"
  by (simp add: mostCommon_def gestureCount_def countOf_def)

lemma mostCommon_FFP: "mostCommon (gestureCount [''Fist'', ''Fist'', ''Pointing'']) = Inr ''Fist''"
  by (simp add: mostCommon_def gestureCount_def countOf_def)

lemma mostCommon_PFPFT:
  "mostCommon (gestureCount [''Pointing'', ''Fist'', ''Pointing'', ''Fist'', ''Thumbs Up'']) = Inr ''Fist''"
  by (simp add: mostCommon_def gestureCount_def countOf_def)

subsection \<open>Runs of the example frames\<close>

lemma frame_pointing_start:
  "fst (detectHands defaultEnv startTracking [pointingHand]) =
     \<lparr>gestureHistoryRef = [''Pointing''], smoothedLandmarksRef = [0 \<mapsto> pointingKeypoints]\<rparr>"
proof -
  have "fst (detectHands defaultEnv startTracking [pointingHand]) =
          \<lparr>gestureHistoryRef = pushHistory (gestureHistoryRef startTracking)
                (fst (applySensitivity (sensitivity defaultEnv) (selectGesture pointingKeypoints))),
            smoothedLandmarksRef = [0 \<mapsto> pointingKeypoints]\<rparr>"
    using detectHands_single [where lb = pointingKeypoints and la = pointingKeypoints
         and env = defaultEnv and hand = pointingHand and s = startTracking
         and refa = "[0 \<mapsto> pointingKeypoints]" and refb = "[0 \<mapsto> pointingKeypoints]"]
    by (simp add: defaultEnv_def pointingHand_def pointing_len startTracking_def
          smoothLandmarks_first smooth_same)
  then show ?thesis
    by (simp add: select_pointing applySensitivity_def defaultEnv_def startTracking_def pushHistory_def)
qed

lemma frame_pointing_again:
  "fst (detectHands defaultEnv
          \<lparr>gestureHistoryRef = [''Pointing''], smoothedLandmarksRef = [0 \<mapsto> pointingKeypoints]\<rparr>
          [pointingHand]) =
     \<lparr>gestureHistoryRef = [''Pointing'', ''Pointing''], smoothedLandmarksRef = [0 \<mapsto> pointingKeypoints]\<rparr>"
proof -
  have "fst (detectHands defaultEnv
          \<lparr>gestureHistoryRef = [''Pointing''], smoothedLandmarksRef = [0 \<mapsto> pointingKeypoints]\<rparr>
          [pointingHand]) =
          \<lparr>gestureHistoryRef = pushHistory [''Pointing'']
                (fst (applySensitivity (sensitivity defaultEnv) (selectGesture pointingKeypoints))),
            smoothedLandmarksRef = [0 \<mapsto> pointingKeypoints]\<rparr>"
    using detectHands_single [where lb = pointingKeypoints and la = pointingKeypoints
         and env = defaultEnv and hand = pointingHand
         and refa = "[0 \<mapsto> pointingKeypoints]" and refb = "[0 \<mapsto> pointingKeypoints]"
         and s = "\<lparr>gestureHistoryRef = [''Pointing''], smoothedLandmarksRef = [0 \<mapsto> pointingKeypoints]\<rparr>"]
    by (simp add: defaultEnv_def pointingHand_def pointing_len smooth_same)
  then show ?thesis
    by (simp add: select_pointing applySensitivity_def defaultEnv_def pushHistory_def)
qed

lemma run_two_pointing:
  "run defaultEnv startTracking [[pointingHand], [pointingHand]] =
     \<lparr>gestureHistoryRef = [''Pointing'', ''Pointing''], smoothedLandmarksRef = [0 \<mapsto> pointingKeypoints]\<rparr>"
  by (simp add: run_def frame_pointing_start frame_pointing_again)

lemma smooth_three_after_pointing:
  "map2 (smoothLandmark (4/5)) pointingKeypoints threeFingerKeypoints =
     [origin, origin, origin, origin, origin, origin, origin,
      origin, pt 0 (-280), origin, origin, origin, pt 0 (-200), origin,
      origin, origin, pt 0 (-200), origin, origin, origin, origin]"
  by (simp add: pointingKeypoints_def threeFingerKeypoints_def smoothLandmark_def origin_def
        pt_def truthy_def)

lemma select_three_after_pointing:
  "selectGesture (map2 (smoothLandmark (4/5)) pointingKeypoints threeFingerKeypoints) =
     (''3 Fingers'', 3/5)"
  unfolding smooth_three_after_pointing
  by (simp add: selectGesture_def extendedFingersOf_def origin_def pt_def Let_def numberGesture_def
        digitChar_def)

lemma smooth_three_run:
  "smoothLandmarks (smoothing defaultEnv)
     (smoothedLandmarksRef (run defaultEnv startTracking [[pointingHand], [pointingHand]]))
     (keypoints threeFingerHand) 0 =
   Inr ([0 \<mapsto> map2 (smoothLandmark (4/5)) pointingKeypoints threeFingerKeypoints],
        map2 (smoothLandmark (4/5)) pointingKeypoints threeFingerKeypoints)"
  by (simp add: run_two_pointing defaultEnv_simps threeFingerHand_def smoothLandmarks_next
        pointing_len threeFinger_len)

lemma raw_three_run:
  "rawGesture defaultEnv (run defaultEnv startTracking [[pointingHand], [pointingHand]])
     threeFingerHand = Inr (''3 Fingers'', 3/5)"
proof -
  have "rawGesture defaultEnv (run defaultEnv startTracking [[pointingHand], [pointingHand]])
          threeFingerHand =
        Inr (selectGesture (map2 (smoothLandmark (4/5)) pointingKeypoints threeFingerKeypoints))"
    using smooth_three_run by (rule rawGesture_step) (simp add: threeFingerHand_def threeFinger_len)
  then show ?thesis by (simp add: select_three_after_pointing)
qed

lemma slotFits_three_run:
  "slotFits (run defaultEnv startTracking [[pointingHand], [pointingHand]]) threeFingerHand"
  by (simp add: slotFits_def run_two_pointing threeFingerHand_def pointing_len threeFinger_len)

lemma detect_three_run:
  "map_sum id confidence
     (snd (detectAdvancedGesture defaultEnv
        (run defaultEnv startTracking [[pointingHand], [pointingHand]]) [threeFingerHand])) = Inr 0"
proof -
  have len: "21 \<le> length (keypoints threeFingerHand)"
    by (simp add: threeFingerHand_def threeFinger_len)
  obtain common where mc: "mostCommon (gestureCount (pushHistory
      (gestureHistoryRef (run defaultEnv startTracking [[pointingHand], [pointingHand]]))
      (fst (applySensitivity (sensitivity defaultEnv)
         (selectGesture (map2 (smoothLandmark (4/5)) pointingKeypoints threeFingerKeypoints)))))) = Inr common"
    using mostCommon_pushHistory by blast
  show ?thesis
    using detect_emitted [OF smooth_three_run len mc, of "[]"]
    by (simp add: select_three_after_pointing applySensitivity_def defaultEnv_simps)
qed

lemma run_two_fist:
  "run unsmoothedEnv startTracking [[fistHand], [fistHand]] =
     \<lparr>gestureHistoryRef = [''Fist'', ''Fist''], smoothedLandmarksRef = [0 \<mapsto> fistKeypoints]\<rparr>"
proof -
  have k: "keypoints fistHand = fistKeypoints" by (simp add: fistHand_def)
  have g: "fst (applySensitivity (sensitivity unsmoothedEnv) (selectGesture (keypoints fistHand))) = ''Fist''"
    by (simp add: k select_fist applySensitivity_def unsmoothedEnv_simps)
  have l: "21 \<le> length (keypoints fistHand)" by (simp add: k fist_len)
  have a: "fst (detectHands unsmoothedEnv startTracking [fistHand]) =
             \<lparr>gestureHistoryRef = [''Fist''], smoothedLandmarksRef = [0 \<mapsto> fistKeypoints]\<rparr>"
    using frame_first [OF unsmoothedEnv_simps(3) l g] by (simp add: k)
  have b: "fst (detectHands unsmoothedEnv
                \<lparr>gestureHistoryRef = [''Fist''], smoothedLandmarksRef = [0 \<mapsto> fistKeypoints]\<rparr> [fistHand]) =
             \<lparr>gestureHistoryRef = [''Fist'', ''Fist''], smoothedLandmarksRef = [0 \<mapsto> fistKeypoints]\<rparr>"
    using frame_repeat [OF unsmoothedEnv_simps(3) l g, of "[''Fist'']"] by (simp add: k pushHistory_def)
  show ?thesis by (simp add: run_def a b)
qed

lemma unsmoothed_pointing_after_fist:
  "map2 (smoothLandmark 0) fistKeypoints pointingKeypoints = pointingKeypoints"
  by (simp add: fistKeypoints_def pointingKeypoints_def smoothLandmark_def origin_def pt_def truthy_def)

lemma smooth_pointing_after_fist:
  "smoothLandmarks (smoothing unsmoothedEnv)
     (smoothedLandmarksRef (run unsmoothedEnv startTracking [[fistHand], [fistHand]]))
     (keypoints pointingHand) 0 = Inr ([0 \<mapsto> pointingKeypoints], pointingKeypoints)"
  by (simp add: run_two_fist unsmoothedEnv_simps pointingHand_def smoothLandmarks_next
        pointing_len fist_len unsmoothed_pointing_after_fist)

lemma smooth_pointing_start:
  "smoothLandmarks (smoothing unsmoothedEnv) (smoothedLandmarksRef startTracking)
     (keypoints pointingHand) 0 = Inr ([0 \<mapsto> pointingKeypoints], pointingKeypoints)"
  by (simp add: startTracking_def pointingHand_def smoothLandmarks_first)

lemma run_alternating:
  "run unsmoothedEnv startTracking [[pointingHand], [fistHand], [pointingHand], [fistHand]] =
     \<lparr>gestureHistoryRef = [''Pointing'', ''Fist'', ''Pointing'', ''Fist''],
      smoothedLandmarksRef = [0 \<mapsto> fistKeypoints]\<rparr>"
proof -
  have f1: "fst (detectHands unsmoothedEnv startTracking [pointingHand]) =
              \<lparr>gestureHistoryRef = [''Pointing''], smoothedLandmarksRef = [0 \<mapsto> pointingKeypoints]\<rparr>"
    using frame_first [OF unsmoothedEnv_simps(3) _ gate_pointing]
    by (simp add: hand_keypoints pointing_len)
  have f2: "fst (detectHands unsmoothedEnv
              \<lparr>gestureHistoryRef = [''Pointing''], smoothedLandmarksRef = [0 \<mapsto> pointingKeypoints]\<rparr>
              [fistHand]) =
              \<lparr>gestureHistoryRef = [''Pointing'', ''Fist''], smoothedLandmarksRef = [0 \<mapsto> fistKeypoints]\<rparr>"
    using frame_unsmoothed [OF unsmoothedEnv_simps(3) unsmoothedEnv_simps(2) _ _ _ gate_fist,
        where s = "\<lparr>gestureHistoryRef = [''Pointing''], smoothedLandmarksRef = [0 \<mapsto> pointingKeypoints]\<rparr>"
        and prevs = pointingKeypoints]
    by (simp add: hand_keypoints pointing_len fist_len pushHistory_def)
  have f3: "fst (detectHands unsmoothedEnv
              \<lparr>gestureHistoryRef = [''Pointing'', ''Fist''], smoothedLandmarksRef = [0 \<mapsto> fistKeypoints]\<rparr>
              [pointingHand]) =
              \<lparr>gestureHistoryRef = [''Pointing'', ''Fist'', ''Pointing''],
               smoothedLandmarksRef = [0 \<mapsto> pointingKeypoints]\<rparr>"
    using frame_unsmoothed [OF unsmoothedEnv_simps(3) unsmoothedEnv_simps(2) _ _ _ gate_pointing,
        where s = "\<lparr>gestureHistoryRef = [''Pointing'', ''Fist''], smoothedLandmarksRef = [0 \<mapsto> fistKeypoints]\<rparr>"
        and prevs = fistKeypoints]
    by (simp add: hand_keypoints pointing_len fist_len pushHistory_def)
  have f4: "fst (detectHands unsmoothedEnv
              \<lparr>gestureHistoryRef = [''Pointing'', ''Fist'', ''Pointing''],
               smoothedLandmarksRef = [0 \<mapsto> pointingKeypoints]\<rparr>
              [fistHand]) =
              \<lparr>gestureHistoryRef = [''Pointing'', ''Fist'', ''Pointing'', ''Fist''],
               smoothedLandmarksRef = [0 \<mapsto> fistKeypoints]\<rparr>"
    using frame_unsmoothed [OF unsmoothedEnv_simps(3) unsmoothedEnv_simps(2) _ _ _ gate_fist,
        where s = "\<lparr>gestureHistoryRef = [''Pointing'', ''Fist'', ''Pointing''],
               smoothedLandmarksRef = [0 \<mapsto> pointingKeypoints]\<rparr>"
        and prevs = pointingKeypoints]
    by (simp add: hand_keypoints pointing_len fist_len pushHistory_def)
  show ?thesis
    by (simp add: run_def f1 f2 f3 f4)
qed

section \<open>Claims about the landmark smoother\<close>

text \<open>
  C7. The smoother's contract. On the first observation for a hand slot
  \<^verbatim>\<open>smoothLandmarks\<close> stores its input under the slot and returns it unchanged. On a later
  observation (the stored array being at least as long as the input) it returns an array of
  the input's length in which every \<open>x\<close> and \<open>y\<close> is \<open>prev * a + current * (1 - a)\<close>
  for the smoothing factor \<open>a\<close>, and stores that array under the slot.
\<close>

theorem C7_smoother_contract:
  "(ref i = None \<longrightarrow> smoothLandmarks a ref cur i = Inr (ref(i \<mapsto> cur), cur)) \<and>
   (ref i = Some prevs \<and> length cur \<le> length prevs \<longrightarrow>
      (\<exists>out. smoothLandmarks a ref cur i = Inr (ref(i \<mapsto> out), out) \<and>
             length out = length cur \<and>
             (\<forall>j < length cur.
                lx (out ! j) = lx (prevs ! j) * a + lx (cur ! j) * (1 - a) \<and>
                ly (out ! j) = ly (prevs ! j) * a + ly (cur ! j) * (1 - a))))"
proof (intro conjI impI)
  assume "ref i = None"
  then show "smoothLandmarks a ref cur i = Inr (ref(i \<mapsto> cur), cur)"
    by (rule smoothLandmarks_first)
next
  assume h: "ref i = Some prevs \<and> length cur \<le> length prevs"
  let ?out = "map2 (smoothLandmark a) prevs cur"
  have stored: "smoothLandmarks a ref cur i = Inr (ref(i \<mapsto> ?out), ?out)"
    using h by (simp add: smoothLandmarks_next)
  have len: "length ?out = length cur"
    using h by simp
  have coords: "\<forall>j < length cur.
              lx (?out ! j) = lx (prevs ! j) * a + lx (cur ! j) * (1 - a) \<and>
              ly (?out ! j) = ly (prevs ! j) * a + ly (cur ! j) * (1 - a)"
    using h by (simp add: smoothLandmark_def)
  from stored len coords
  show "\<exists>out. smoothLandmarks a ref cur i = Inr (ref(i \<mapsto> out), out) \<and>
             length out = length cur \<and>
             (\<forall>j < length cur.
                lx (out ! j) = lx (prevs ! j) * a + lx (cur ! j) * (1 - a) \<and>
                ly (out ! j) = ly (prevs ! j) * a + ly (cur ! j) * (1 - a))"
    by blast
qed

theorem C7_smoother_contract_witness:
  "(Map.empty :: SmoothedLandmarks) 0 = None \<and>
   smoothLandmarks (8/10) Map.empty [pt 100 20] 0 = Inr ([0 \<mapsto> [pt 100 20]], [pt 100 20]) \<and>
   [0 \<mapsto> [pt 0 10]] (0::nat) = Some [pt 0 10] \<and>
   length [pt 100 20] \<le> length [pt 0 10] \<and>
   smoothLandmarks (8/10) [0 \<mapsto> [pt 0 10]] [pt 100 20] 0 = Inr ([0 \<mapsto> [pt 20 12]], [pt 20 12])"
  using C7_smoother_contract [where ref = Map.empty and i = 0 and a = "8/10" and cur = "[pt 100 20]"]
    C7_smoother_contract [where ref = "[0 \<mapsto> [pt 0 10]]" and i = 0 and a = "8/10"
      and cur = "[pt 100 20]" and prevs = "[pt 0 10]"]
  by (simp add: smoothLandmarks_def smoothLandmark_def truthy_def pt_def)

text \<open>
  C8. On a later observation the \<open>z\<close> coordinate is smoothed when the stored and the
  current \<open>z\<close> are both present and not zero; a \<open>z\<close> of zero counts as absent. With the
  default smoothing 0.8, a stored wrist \<open>z\<close> of 0 and a current wrist \<open>z\<close> of 5, both are
  present and the formula gives 1, but \<^verbatim>\<open>smoothLandmarks\<close> returns and stores the current
  frame with its \<open>z\<close> of 5.
\<close>

theorem C8_zero_z_not_smoothed:
  "smoothLandmarks (smoothing defaultEnv) [0 \<mapsto> depthKeypoints 0] (depthKeypoints 5) 0 =
     Inr ([0 \<mapsto> depthKeypoints 5], depthKeypoints 5) \<and>
   lz (depthKeypoints 0 ! 0) = Some 0 \<and>
   lz (depthKeypoints 5 ! 0) = Some 5 \<and>
   (0::real) * smoothing defaultEnv + 5 * (1 - smoothing defaultEnv) = 1"
proof -
  have len: "length (depthKeypoints 5) \<le> length (depthKeypoints 0)"
    by (simp add: depthKeypoints_def)
  have out: "map2 (smoothLandmark (smoothing defaultEnv)) (depthKeypoints 0) (depthKeypoints 5) =
               depthKeypoints 5"
    by (simp add: depthKeypoints_def fistKeypoints_def origin_def pt_def smoothLandmark_def
          truthy_def defaultEnv_simps)
  have "smoothLandmarks (smoothing defaultEnv) [0 \<mapsto> depthKeypoints 0] (depthKeypoints 5) 0 =
          Inr ([0 \<mapsto> depthKeypoints 5], depthKeypoints 5)"
    using len by (simp add: smoothLandmarks_next out)
  then show ?thesis
    by (simp add: depthKeypoints_def fistKeypoints_def defaultEnv_simps)
qed

section \<open>Claims about the gesture classifier\<close>

text \<open>
  C2. A frame whose thumb and index finger are extended, the other three not, with the
  thumb tip and the index tip less than 30 apart, is the OK sign of the decision table.
  \<^verbatim>\<open>okSignHand\<close> is such a frame (the two tips coincide); on a freshly started tracker
  its raw classification is Pointing with confidence 0.9: the Pointing branch comes first
  and does not look at the thumb.
\<close>

theorem C2_ok_sign_frame_is_pointing:
  "extendedFingersOf okSignKeypoints = [True, True, False, False, False] \<and>
   dist2d (okSignKeypoints ! 4) (okSignKeypoints ! 8) < 30 \<and>
   rawGesture defaultEnv startTracking okSignHand = Inr (''Pointing'', 9/10)"
proof -
  have d: "dist2d (okSignKeypoints ! 4) (okSignKeypoints ! 8) < 30"
    by (simp add: dist2d_def okSignKeypoints_def origin_def pt_def)
  have sm: "smoothLandmarks (smoothing defaultEnv) (smoothedLandmarksRef startTracking)
              (keypoints okSignHand) 0 = Inr ([0 \<mapsto> okSignKeypoints], okSignKeypoints)"
    by (simp add: smoothLandmarks_first startTracking_def okSignHand_def)
  have len: "21 \<le> length (keypoints okSignHand)"
    by (simp add: okSignHand_def okSign_len)
  have "rawGesture defaultEnv startTracking okSignHand = Inr (selectGesture okSignKeypoints)"
    using sm len by (rule rawGesture_step)
  with okSign_extended d show ?thesis
    by (simp add: selectGesture_thumb_index)
qed

text \<open>
  C10. The label the decision table selects is never the placeholder \<^verbatim>\<open>'Unknown'\<close>, and
  for a hand of at least 21 landmarks whose slot fits the decision table is reached. The OK
  sign branch is the only one that can leave the placeholder, and it is never taken:
  whenever thumb and index finger are the extended ones, the Pointing branch has been taken
  before it.
\<close>

theorem C10_never_unknown:
  "(\<forall>g c. rawGesture env s hand = Inr (g, c) \<longrightarrow> g \<noteq> ''Unknown'') \<and>
   (21 \<le> length (keypoints hand) \<and> slotFits s hand \<longrightarrow> (\<exists>g c. rawGesture env s hand = Inr (g, c))) \<and>
   (\<forall>lms. extendedFingersOf lms = [True, True, False, False, False] \<longrightarrow>
          selectGesture lms = (''Pointing'', 9/10))"
proof (intro conjI impI allI)
  fix g c
  assume "rawGesture env s hand = Inr (g, c)"
  then show "g \<noteq> ''Unknown''" by (rule rawGesture_not_Unknown)
next
  assume wf: "21 \<le> length (keypoints hand) \<and> slotFits s hand"
  then obtain out where sm: "smoothLandmarks (smoothing env) (smoothedLandmarksRef s) (keypoints hand) 0
          = Inr ((smoothedLandmarksRef s)(0 \<mapsto> out), out)"
    using slotFits_smooth [of s hand] by blast
  have "rawGesture env s hand = Inr (selectGesture out)"
    using sm wf by (simp add: rawGesture_step)
  then show "\<exists>g c. rawGesture env s hand = Inr (g, c)"
    by (cases "selectGesture out") simp
next
  fix lms
  assume "extendedFingersOf lms = [True, True, False, False, False]"
  then show "selectGesture lms = (''Pointing'', 9/10)"
    by (rule selectGesture_thumb_index)
qed

theorem C10_never_unknown_witness:
  "rawGesture defaultEnv (run defaultEnv startTracking [[pointingHand], [pointingHand]])
     threeFingerHand = Inr (''3 Fingers'', 3/5) \<and>
   ''3 Fingers'' \<noteq> ''Unknown'' \<and>
   21 \<le> length (keypoints threeFingerHand) \<and>
   slotFits (run defaultEnv startTracking [[pointingHand], [pointingHand]]) threeFingerHand \<and>
   (\<exists>g c. rawGesture defaultEnv (run defaultEnv startTracking [[pointingHand], [pointingHand]])
             threeFingerHand = Inr (g, c)) \<and>
   extendedFingersOf okSignKeypoints = [True, True, False, False, False] \<and>
   selectGesture okSignKeypoints = (''Pointing'', 9/10)"
  using C10_never_unknown [where hand = threeFingerHand and env = defaultEnv
      and s = "run defaultEnv startTracking [[pointingHand], [pointingHand]]"]
    slotFits_three_run okSign_extended raw_three_run
  by (simp add: threeFingerHand_def threeFinger_len)

text \<open>
  C5. Whatever the hands, the state and the settings, the confidence of a result that
  \<^verbatim>\<open>detectAdvancedGesture\<close> returns lies between 0 and 1. It returns a result for a hand
  of at least 21 landmarks whose slot fits, and for no hands.
\<close>

theorem C5_confidence_bounds:
  "(\<forall>s' r. detectAdvancedGesture env s hands = (s', Inr r) \<longrightarrow>
            0 \<le> confidence r \<and> confidence r \<le> 1) \<and>
   (21 \<le> length (keypoints hand) \<and> slotFits s hand \<longrightarrow>
      (\<exists>s' r. detectAdvancedGesture env s (hand # hs) = (s', Inr r))) \<and>
   (\<exists>s' r. detectAdvancedGesture env s [] = (s', Inr r))"
proof -
  have bounds: "\<forall>s' r. detectAdvancedGesture env s hands = (s', Inr r) \<longrightarrow>
            0 \<le> confidence r \<and> confidence r \<le> 1"
    using detect_confidence_bounds by blast
  have returns: "\<exists>s' r. detectAdvancedGesture env s (hand # hs) = (s', Inr r)"
    if wf: "21 \<le> length (keypoints hand) \<and> slotFits s hand"
  proof -
    obtain out where sm: "smoothLandmarks (smoothing env) (smoothedLandmarksRef s) (keypoints hand) 0
          = Inr ((smoothedLandmarksRef s)(0 \<mapsto> out), out)"
      using slotFits_smooth [of s hand] wf by blast
    from wf have len: "21 \<le> length (keypoints hand)" by simp
    from detect_step [OF sm len, of hs] show ?thesis by blast
  qed
  have none: "\<exists>s' r. detectAdvancedGesture env s [] = (s', Inr r)"
    by (simp add: detectAdvancedGesture_Nil)
  from bounds returns none show ?thesis by blast
qed

theorem C5_confidence_bounds_witness:
  "map_sum id confidence
     (snd (detectAdvancedGesture defaultEnv
        (run defaultEnv startTracking [[pointingHand], [pointingHand]]) [threeFingerHand])) = Inr 0 \<and>
   (0::real) \<le> 0 \<and> (0::real) \<le> 1 \<and>
   21 \<le> length (keypoints threeFingerHand) \<and>
   slotFits (run defaultEnv startTracking [[pointingHand], [pointingHand]]) threeFingerHand \<and>
   (\<exists>s' r. detectAdvancedGesture defaultEnv
               (run defaultEnv startTracking [[pointingHand], [pointingHand]])
               [threeFingerHand] = (s', Inr r) \<and>
            0 \<le> confidence r \<and> confidence r \<le> 1)"
proof -
  have len: "21 \<le> length (keypoints threeFingerHand)"
    by (simp add: threeFingerHand_def threeFinger_len)
  from C5_confidence_bounds [where hand = threeFingerHand and env = defaultEnv and hs = "[]"
      and hands = "[threeFingerHand]"
      and s = "run defaultEnv startTracking [[pointingHand], [pointingHand]]"]
  have "\<exists>s' r. detectAdvancedGesture defaultEnv
               (run defaultEnv startTracking [[pointingHand], [pointingHand]])
               [threeFingerHand] = (s', Inr r) \<and>
            0 \<le> confidence r \<and> confidence r \<le> 1"
    using len slotFits_three_run by blast
  then show ?thesis
    using detect_three_run len slotFits_three_run by simp
qed

text \<open>
  C6. The label \<^verbatim>\<open>detectAdvancedGesture\<close> returns is not a function of the frame alone.
  With smoothing at 0 the smoothed landmarks are the frame's own; the pointing frame is
  labelled Pointing on a freshly started tracker and Fist after two fist frames, the
  smoothed landmarks being the same both times.
\<close>

theorem C6_counterexample:
  "map_sum id snd (smoothLandmarks (smoothing unsmoothedEnv) (smoothedLandmarksRef startTracking)
      (keypoints pointingHand) 0) = Inr pointingKeypoints \<and>
   map_sum id snd (smoothLandmarks (smoothing unsmoothedEnv)
      (smoothedLandmarksRef (run unsmoothedEnv startTracking [[fistHand], [fistHand]]))
      (keypoints pointingHand) 0) = Inr pointingKeypoints \<and>
   map_sum id gesture (snd (detectAdvancedGesture unsmoothedEnv startTracking [pointingHand]))
     = Inr ''Pointing'' \<and>
   map_sum id gesture (snd (detectAdvancedGesture unsmoothedEnv
      (run unsmoothedEnv startTracking [[fistHand], [fistHand]]) [pointingHand]))
     = Inr ''Fist''"
proof -
  have len: "21 \<le> length (keypoints pointingHand)"
    by (simp add: pointingHand_def pointing_len)
  have gate: "applySensitivity (sensitivity unsmoothedEnv) (selectGesture pointingKeypoints) = (''Pointing'', 9/10)"
    by (simp add: select_pointing applySensitivity_def unsmoothedEnv_simps)
  have a: "map_sum id gesture (snd (detectAdvancedGesture unsmoothedEnv startTracking [pointingHand]))
     = Inr ''Pointing''"
    using detect_emitted [OF smooth_pointing_start len, of "''Pointing''" "[]"]
    by (simp add: gate startTracking_def pushHistory_def mostCommon_P)
  have b: "map_sum id gesture (snd (detectAdvancedGesture unsmoothedEnv
      (run unsmoothedEnv startTracking [[fistHand], [fistHand]]) [pointingHand]))
     = Inr ''Fist''"
    using detect_emitted [OF smooth_pointing_after_fist len, of "''Fist''" "[]"]
    by (simp add: gate run_two_fist pushHistory_def mostCommon_FFP)
  show ?thesis
    using a b by (simp add: smooth_pointing_start smooth_pointing_after_fist)
qed

text \<open>
  C6, amended. What \<^verbatim>\<open>detectAdvancedGesture\<close> returns depends on the tracker state only
  through the array stored for slot 0 and the gesture history. Two states that agree on
  slot 0 give the same raw classification and the same confidence for the same hands and
  settings; if they also agree on the history, they give the same result, label included.
\<close>

theorem C6_result_depends_on_slot_and_history:
  assumes "smoothedLandmarksRef sa 0 = smoothedLandmarksRef sb 0"
  shows "rawGesture env sa hand = rawGesture env sb hand \<and>
         map_sum id confidence (snd (detectAdvancedGesture env sa hands)) =
           map_sum id confidence (snd (detectAdvancedGesture env sb hands)) \<and>
         (gestureHistoryRef sa = gestureHistoryRef sb \<longrightarrow>
            snd (detectAdvancedGesture env sa hands) = snd (detectAdvancedGesture env sb hands))"
proof -
  have sl: "map_sum id snd (smoothLandmarks (smoothing env) (smoothedLandmarksRef sa) ks 0) =
            map_sum id snd (smoothLandmarks (smoothing env) (smoothedLandmarksRef sb) ks 0)" for ks
    using assms by (rule smoothLandmarks_slot)
  have raw: "rawGesture env sa hand = rawGesture env sb hand"
    using sl [of "keypoints hand"]
    by (auto simp: rawGesture_def split: sum.splits)
  have conf: "map_sum id confidence (snd (detectAdvancedGesture env sa hands)) =
           map_sum id confidence (snd (detectAdvancedGesture env sb hands))"
  proof (cases hands)
    case Nil
    then show ?thesis by (simp add: detectAdvancedGesture_Nil)
  next
    case (Cons h hs)
    obtain c1 where c1: "mostCommon (gestureCount (pushHistory (gestureHistoryRef sa) g)) = Inr (c1 g)" for g
      using mostCommon_pushHistory by metis
    obtain c2 where c2: "mostCommon (gestureCount (pushHistory (gestureHistoryRef sb) g)) = Inr (c2 g)" for g
      using mostCommon_pushHistory by metis
    show ?thesis
      using sl [of "keypoints h"] Cons
      by (auto simp: detectAdvancedGesture_def Let_def c1 c2 split: sum.splits)
  qed
  have full: "snd (detectAdvancedGesture env sa hands) = snd (detectAdvancedGesture env sb hands)"
    if "gestureHistoryRef sa = gestureHistoryRef sb"
  proof (cases hands)
    case Nil
    then show ?thesis by (simp add: detectAdvancedGesture_Nil)
  next
    case (Cons h hs)
    show ?thesis
      using sl [of "keypoints h"] Cons that
      by (auto simp: detectAdvancedGesture_def Let_def split: sum.splits)
  qed
  from raw conf full show ?thesis by blast
qed

theorem C6_result_depends_on_slot_and_history_witness:
  "smoothedLandmarksRef \<lparr>gestureHistoryRef = [''Fist'', ''Fist''],
                          smoothedLandmarksRef = [0 \<mapsto> fistKeypoints]\<rparr> 0 =
   smoothedLandmarksRef \<lparr>gestureHistoryRef = [''Fist'', ''Fist''],
                          smoothedLandmarksRef = [0 \<mapsto> fistKeypoints, 1 \<mapsto> pointingKeypoints]\<rparr> 0 \<and>
   gestureHistoryRef \<lparr>gestureHistoryRef = [''Fist'', ''Fist''],
                       smoothedLandmarksRef = [0 \<mapsto> fistKeypoints]\<rparr> =
   gestureHistoryRef \<lparr>gestureHistoryRef = [''Fist'', ''Fist''],
                       smoothedLandmarksRef = [0 \<mapsto> fistKeypoints, 1 \<mapsto> pointingKeypoints]\<rparr> \<and>
   snd (detectAdvancedGesture unsmoothedEnv
          \<lparr>gestureHistoryRef = [''Fist'', ''Fist''], smoothedLandmarksRef = [0 \<mapsto> fistKeypoints]\<rparr>
          [pointingHand]) =
   snd (detectAdvancedGesture unsmoothedEnv
          \<lparr>gestureHistoryRef = [''Fist'', ''Fist''],
            smoothedLandmarksRef = [0 \<mapsto> fistKeypoints, 1 \<mapsto> pointingKeypoints]\<rparr>
          [pointingHand])"
  using C6_result_depends_on_slot_and_history [where env = unsmoothedEnv and hands = "[pointingHand]"
      and sa = "\<lparr>gestureHistoryRef = [''Fist'', ''Fist''], smoothedLandmarksRef = [0 \<mapsto> fistKeypoints]\<rparr>"
      and sb = "\<lparr>gestureHistoryRef = [''Fist'', ''Fist''],
                 smoothedLandmarksRef = [0 \<mapsto> fistKeypoints, 1 \<mapsto> pointingKeypoints]\<rparr>"]
  by simp

section \<open>Claims about a processed frame\<close>

text \<open>
  C3. A frame without hands emits the fixed result \<^verbatim>\<open>'No hands detected'\<close> with
  confidence 0 and leaves the tracker state as it was: nothing is pushed into the gesture
  history. After three such frames on a freshly started tracker the history is still
  empty, and the next pointing frame is labelled Pointing at once; had the three labels
  been pushed, the most common label would be \<^verbatim>\<open>'No hands detected'\<close>.
\<close>

theorem C3_counterexample:
  "gestureHistoryRef (fst (detectHands defaultEnv startTracking [])) = [] \<and>
   gestureHistoryRef (run defaultEnv startTracking [[], [], []]) = [] \<and>
   map_option gesture
     (snd (detectHands defaultEnv (run defaultEnv startTracking [[], [], []]) [pointingHand]))
     = Some ''Pointing'' \<and>
   mostCommon (gestureCount [''No hands detected'', ''No hands detected'', ''No hands detected'',
                             ''Pointing'']) = Inr ''No hands detected''"
proof -
  have sm: "smoothLandmarks (smoothing defaultEnv) (smoothedLandmarksRef startTracking)
              (keypoints pointingHand) 0 = Inr ([0 \<mapsto> pointingKeypoints], pointingKeypoints)"
    by (simp add: startTracking_def pointingHand_def smoothLandmarks_first)
  have len: "21 \<le> length (keypoints pointingHand)"
    by (simp add: pointingHand_def pointing_len)
  have "map_option gesture (snd (detectHands defaultEnv startTracking (pointingHand # [])))
          = Some ''Pointing''"
    using detectHands_emitted [OF sm len, of "''Pointing''" "[]"]
    by (simp add: select_pointing applySensitivity_def defaultEnv_simps startTracking_def
          pushHistory_def mostCommon_P)
  moreover have "mostCommon (gestureCount [''No hands detected'', ''No hands detected'',
                   ''No hands detected'', ''Pointing'']) = Inr ''No hands detected''"
    by (simp add: mostCommon_def gestureCount_def countOf_def)
  ultimately show ?thesis
    by (simp add: run_three_empty detectHands_Nil startTracking_def)
qed

text \<open>
  C3, amended. When no hand is detected, \<^verbatim>\<open>detectHands\<close> emits the fixed result
  \<^verbatim>\<open>'No hands detected'\<close> with confidence 0 and no hand data, which is also what
  \<^verbatim>\<open>detectAdvancedGesture\<close> returns for no hands; the gesture history and the smoothing
  state stay as they were.
\<close>

theorem C3_no_hands_state_unchanged:
  "detectHands env s [] =
     (s, Some \<lparr>gesture = ''No hands detected'', confidence = 0, handData = None\<rparr>) \<and>
   gestureHistoryRef (fst (detectHands env s [])) = gestureHistoryRef s \<and>
   detectAdvancedGesture env s [] =
     (s, Inr \<lparr>gesture = ''No hands detected'', confidence = 0, handData = None\<rparr>)"
  by (simp add: detectHands_Nil detectAdvancedGesture_Nil)

text \<open>
  C4. A confidence below the sensitivity does not make the emitted label
  \<^verbatim>\<open>'Uncertain'\<close>. With the default settings, after two pointing frames the three-finger
  frame is classified as 3 Fingers with confidence 0.6, below the sensitivity 0.7, and the
  frame is emitted as Pointing.
\<close>

theorem C4_counterexample:
  "rawGesture defaultEnv (run defaultEnv startTracking [[pointingHand], [pointingHand]])
     threeFingerHand = Inr (''3 Fingers'', 6/10) \<and>
   6/10 < sensitivity defaultEnv \<and>
   map_option gesture
     (snd (detectHands defaultEnv (run defaultEnv startTracking [[pointingHand], [pointingHand]])
        [threeFingerHand])) = Some ''Pointing''"
proof -
  have "mostCommon (gestureCount (pushHistory
           (gestureHistoryRef (run defaultEnv startTracking [[pointingHand], [pointingHand]]))
           (fst (applySensitivity (sensitivity defaultEnv)
              (selectGesture (map2 (smoothLandmark (4/5)) pointingKeypoints threeFingerKeypoints))))))
         = Inr ''Pointing''"
    by (simp add: run_two_pointing select_three_after_pointing applySensitivity_def defaultEnv_simps
          pushHistory_def mostCommon_PPU)
  with smooth_three_run
  have "map_option gesture
     (snd (detectHands defaultEnv (run defaultEnv startTracking [[pointingHand], [pointingHand]])
        (threeFingerHand # []))) = Some ''Pointing''"
    using detectHands_emitted [where env = defaultEnv and hand = threeFingerHand and hs = "[]"
        and s = "run defaultEnv startTracking [[pointingHand], [pointingHand]]"
        and lms = "map2 (smoothLandmark (4/5)) pointingKeypoints threeFingerKeypoints"
        and common = "''Pointing''"]
    by (simp add: threeFingerHand_def threeFinger_len)
  then show ?thesis
    using raw_three_run by (simp add: defaultEnv_simps)
qed

text \<open>
  C4, amended. In a processed frame with a hand, if the confidence the decision table
  selects is below the sensitivity, the label pushed into the gesture history is
  \<^verbatim>\<open>'Uncertain'\<close> and the emitted confidence is 0; the emitted label is the most common
  label of the history after the push.
\<close>

theorem C4_low_confidence_pushes_uncertain:
  assumes "rawGesture env s hand = Inr (g, c)" and "c < sensitivity env"
  shows "\<exists>s' r. detectHands env s (hand # hs) = (s', Some r) \<and>
                confidence r = 0 \<and>
                last (gestureHistoryRef s') = ''Uncertain'' \<and>
                mostCommon (gestureCount (gestureHistoryRef s')) = Inr (gesture r)"
proof -
  obtain ref lms where sm: "smoothLandmarks (smoothing env) (smoothedLandmarksRef s) (keypoints hand) 0 = Inr (ref, lms)"
    and len: "21 \<le> length (keypoints hand)" and gc: "(g, c) = selectGesture lms"
    using rawGesture_Inr [OF assms(1)] by blast
  have gate: "applySensitivity (sensitivity env) (selectGesture lms) = (''Uncertain'', 0)"
    using assms(2) gc [symmetric] by (simp add: applySensitivity_def)
  from detectHands_step [OF sm len, of hs] obtain r where
    d: "detectHands env s (hand # hs) =
               (fst (drawAdvancedHands env
                  \<lparr>gestureHistoryRef = pushHistory (gestureHistoryRef s) ''Uncertain'',
                   smoothedLandmarksRef = ref\<rparr> (hand # hs)), Some r)"
    and m: "mostCommon (gestureCount (pushHistory (gestureHistoryRef s) ''Uncertain'')) = Inr (gesture r)"
    and c0: "confidence r = 0"
    unfolding gate by auto
  show ?thesis
    unfolding d using m c0 by (simp add: drawAdvancedHands_history pushHistory_last)
qed

theorem C4_low_confidence_pushes_uncertain_witness:
  "rawGesture defaultEnv (run defaultEnv startTracking [[pointingHand], [pointingHand]])
     threeFingerHand = Inr (''3 Fingers'', 3/5) \<and>
   3/5 < sensitivity defaultEnv \<and>
   (\<exists>s' r. detectHands defaultEnv (run defaultEnv startTracking [[pointingHand], [pointingHand]])
              [threeFingerHand] = (s', Some r) \<and>
            confidence r = 0 \<and>
            last (gestureHistoryRef s') = ''Uncertain'' \<and>
            mostCommon (gestureCount (gestureHistoryRef s')) = Inr (gesture r))"
  using C4_low_confidence_pushes_uncertain [where env = defaultEnv and hand = threeFingerHand
      and s = "run defaultEnv startTracking [[pointingHand], [pointingHand]]"
      and g = "''3 Fingers''" and c = "3/5" and hs = "[]"]
    raw_three_run
  by (simp add: defaultEnv_simps)

text \<open>
  C9. In a processed frame with a hand of at least 21 landmarks, with the canvas in place,
  slot 0 is advanced by \<^verbatim>\<open>detectAdvancedGesture\<close> and again by \<^verbatim>\<open>drawAdvancedHands\<close>.
  Where the slot held an array (at least as long as the keypoints), the array stored after
  the frame is the smoothing step applied twice with the frame's keypoints. On the first
  observation the keypoints are stored and then smoothed once against themselves.
\<close>

theorem C9_slot0_advanced_twice:
  assumes "canvasReady env" and "21 \<le> length (keypoints hand)"
  shows "(smoothedLandmarksRef s 0 = None \<longrightarrow>
            smoothedLandmarksRef (fst (detectHands env s (hand # hs))) 0 =
              Some (map2 (smoothLandmark (smoothing env)) (keypoints hand) (keypoints hand))) \<and>
         (\<forall>prevs. smoothedLandmarksRef s 0 = Some prevs \<and> length (keypoints hand) \<le> length prevs \<longrightarrow>
            smoothedLandmarksRef (fst (detectHands env s (hand # hs))) 0 =
              Some (map2 (smoothLandmark (smoothing env))
                      (map2 (smoothLandmark (smoothing env)) prevs (keypoints hand))
                      (keypoints hand)))"
proof -
  let ?a = "smoothing env" and ?K = "keypoints hand" and ?ref = "smoothedLandmarksRef s"
  have twice: "smoothedLandmarksRef (fst (detectHands env s (hand # hs))) 0 =
                 Some (map2 (smoothLandmark ?a) la ?K)"
    if sm: "smoothLandmarks ?a ?ref ?K 0 = Inr (refa, la)" for refa la
  proof -
    have r1: "refa = ?ref(0 \<mapsto> la)" and len1: "length la = length ?K"
      using smoothLandmarks_result [OF sm] by simp_all
    obtain r where d: "detectHands env s (hand # hs) =
               (fst (drawAdvancedHands env
                  \<lparr>gestureHistoryRef = pushHistory (gestureHistoryRef s)
                      (fst (applySensitivity (sensitivity env) (selectGesture la))),
                   smoothedLandmarksRef = refa\<rparr> (hand # hs)), Some r)"
      using detectHands_step [OF sm assms(2), of hs] by blast
    have sm2: "smoothLandmarks ?a refa ?K 0 =
                 Inr (refa(0 \<mapsto> map2 (smoothLandmark ?a) la ?K), map2 (smoothLandmark ?a) la ?K)"
      using r1 len1 by (simp add: smoothLandmarks_next)
    show ?thesis
      unfolding d using drawAdvancedHands_slot0 [where env = env and hand = hand and rest = hs
          and s = "\<lparr>gestureHistoryRef = pushHistory (gestureHistoryRef s)
                      (fst (applySensitivity (sensitivity env) (selectGesture la))),
                   smoothedLandmarksRef = refa\<rparr>"] assms(1) sm2
      by simp
  qed
  show ?thesis
  proof (intro conjI impI allI)
    assume "?ref 0 = None"
    then have "smoothLandmarks ?a ?ref ?K 0 = Inr (?ref(0 \<mapsto> ?K), ?K)"
      by (rule smoothLandmarks_first)
    then show "smoothedLandmarksRef (fst (detectHands env s (hand # hs))) 0 =
                 Some (map2 (smoothLandmark ?a) ?K ?K)"
      by (rule twice)
  next
    fix prevs
    assume "?ref 0 = Some prevs \<and> length ?K \<le> length prevs"
    then have "smoothLandmarks ?a ?ref ?K 0 =
                 Inr (?ref(0 \<mapsto> map2 (smoothLandmark ?a) prevs ?K), map2 (smoothLandmark ?a) prevs ?K)"
      by (simp add: smoothLandmarks_next)
    then show "smoothedLandmarksRef (fst (detectHands env s (hand # hs))) 0 =
                 Some (map2 (smoothLandmark ?a) (map2 (smoothLandmark ?a) prevs ?K) ?K)"
      by (rule twice)
  qed
qed

theorem C9_slot0_advanced_twice_witness:
  "canvasReady defaultEnv \<and> 21 \<le> length (keypoints threeFingerHand) \<and>
   smoothedLandmarksRef startTracking 0 = None \<and>
   smoothedLandmarksRef (fst (detectHands defaultEnv startTracking [threeFingerHand])) 0 =
     Some threeFingerKeypoints \<and>
   smoothedLandmarksRef (run defaultEnv startTracking [[pointingHand], [pointingHand]]) 0 =
     Some pointingKeypoints \<and>
   length (keypoints threeFingerHand) \<le> length pointingKeypoints \<and>
   smoothedLandmarksRef
     (fst (detectHands defaultEnv (run defaultEnv startTracking [[pointingHand], [pointingHand]])
        [threeFingerHand])) 0 =
     Some [origin, origin, origin, origin, origin, origin, origin,
           origin, pt 0 (-424), origin, origin, origin, pt 0 (-360), origin,
           origin, origin, pt 0 (-360), origin, origin, origin, origin] \<and>
   map2 (smoothLandmark (smoothing defaultEnv)) pointingKeypoints threeFingerKeypoints =
     [origin, origin, origin, origin, origin, origin, origin,
      origin, pt 0 (-280), origin, origin, origin, pt 0 (-200), origin,
      origin, origin, pt 0 (-200), origin, origin, origin, origin]"
proof -
  have k: "keypoints threeFingerHand = threeFingerKeypoints"
    by (simp add: threeFingerHand_def)
  have twice: "map2 (smoothLandmark (4/5))
           [origin, origin, origin, origin, origin, origin, origin,
            origin, pt 0 (-280), origin, origin, origin, pt 0 (-200), origin,
            origin, origin, pt 0 (-200), origin, origin, origin, origin] threeFingerKeypoints =
        [origin, origin, origin, origin, origin, origin, origin,
           origin, pt 0 (-424), origin, origin, origin, pt 0 (-360), origin,
           origin, origin, pt 0 (-360), origin, origin, origin, origin]"
    by (simp add: threeFingerKeypoints_def smoothLandmark_def origin_def pt_def truthy_def)
  have s0: "smoothedLandmarksRef startTracking 0 = None"
    by (simp add: startTracking_def)
  show ?thesis
    using C9_slot0_advanced_twice [where env = defaultEnv and hand = threeFingerHand
        and s = startTracking and hs = "[]"]
      C9_slot0_advanced_twice [where env = defaultEnv and hand = threeFingerHand
        and s = "run defaultEnv startTracking [[pointingHand], [pointingHand]]" and hs = "[]"]
    by (simp add: k threeFinger_len pointing_len defaultEnv_simps run_two_pointing s0
          map2_smoothLandmark_same twice smooth_three_after_pointing)
qed

section \<open>Claims about the gesture history\<close>

text \<open>
  C1. Pushing the labels A, B, A, B, C into an empty history gives the counts A = 2, B = 2,
  C = 1 in that order, and the most common label the code computes is B, not A. The same
  happens with real frames: with smoothing at 0, after the frames pointing, fist, pointing,
  fist the thumbs-up frame leaves the history Pointing, Fist, Pointing, Fist, Thumbs Up and
  is emitted as Fist.
\<close>

theorem C1_counterexample:
  "gestureCount (foldl pushHistory [] [''A'', ''B'', ''A'', ''B'', ''C'']) =
     [(''A'', 2), (''B'', 2), (''C'', 1)] \<and>
   mostCommon (gestureCount (foldl pushHistory [] [''A'', ''B'', ''A'', ''B'', ''C''])) = Inr ''B'' \<and>
   gestureHistoryRef
     (fst (detectHands unsmoothedEnv
        (run unsmoothedEnv startTracking [[pointingHand], [fistHand], [pointingHand], [fistHand]])
        [thumbsUpHand])) = [''Pointing'', ''Fist'', ''Pointing'', ''Fist'', ''Thumbs Up''] \<and>
   map_option gesture
     (snd (detectHands unsmoothedEnv
        (run unsmoothedEnv startTracking [[pointingHand], [fistHand], [pointingHand], [fistHand]])
        [thumbsUpHand])) = Some ''Fist''"
proof -
  have a: "gestureCount (foldl pushHistory [] [''A'', ''B'', ''A'', ''B'', ''C'']) =
     [(''A'', 2), (''B'', 2), (''C'', 1)]"
    by (simp add: gestureCount_def pushHistory_def)
  have b: "mostCommon [(''A'', 2), (''B'', 2), (''C'', 1)] = Inr ''B''"
    by (simp add: mostCommon_def countOf_def)
  have st: "fst (detectHands unsmoothedEnv
        (run unsmoothedEnv startTracking [[pointingHand], [fistHand], [pointingHand], [fistHand]])
        [thumbsUpHand]) =
      \<lparr>gestureHistoryRef = [''Pointing'', ''Fist'', ''Pointing'', ''Fist'', ''Thumbs Up''],
       smoothedLandmarksRef = [0 \<mapsto> thumbsUpKeypoints]\<rparr>"
    unfolding run_alternating
    using frame_unsmoothed [OF unsmoothedEnv_simps(3) unsmoothedEnv_simps(2) _ _ _ gate_thumbsUp,
        where s = "\<lparr>gestureHistoryRef = [''Pointing'', ''Fist'', ''Pointing'', ''Fist''],
               smoothedLandmarksRef = [0 \<mapsto> fistKeypoints]\<rparr>"
        and prevs = fistKeypoints]
    by (simp add: hand_keypoints thumbsUp_len fist_len pushHistory_def)
  have sm: "smoothLandmarks (smoothing unsmoothedEnv)
              (smoothedLandmarksRef \<lparr>gestureHistoryRef = [''Pointing'', ''Fist'', ''Pointing'', ''Fist''],
                 smoothedLandmarksRef = [0 \<mapsto> fistKeypoints]\<rparr>)
              (keypoints thumbsUpHand) 0 = Inr ([0 \<mapsto> thumbsUpKeypoints], thumbsUpKeypoints)"
    by (simp add: unsmoothedEnv_simps hand_keypoints smoothLandmarks_next thumbsUp_len fist_len
          map2_smoothLandmark_zero)
  have len: "21 \<le> length (keypoints thumbsUpHand)"
    by (simp add: hand_keypoints thumbsUp_len)
  have em: "map_option gesture
     (snd (detectHands unsmoothedEnv
        (run unsmoothedEnv startTracking [[pointingHand], [fistHand], [pointingHand], [fistHand]])
        (thumbsUpHand # []))) = Some ''Fist''"
    unfolding run_alternating
    using detectHands_emitted [OF sm len, of "''Fist''" "[]"] gate_thumbsUp
    by (simp add: hand_keypoints pushHistory_def mostCommon_PFPFT)
  show ?thesis
    using a b st em by simp
qed

text \<open>
  C1, amended. The counts are folded in insertion order: the keys of \<^verbatim>\<open>gestureCount\<close> are
  the labels of the history in the order of their first occurrence, each with its number of
  occurrences. The label returned has the highest count, and a tie is broken in favour of
  the label encountered last: every label whose first occurrence comes later has a strictly
  smaller count. Pushing A, B, A, B, C into an empty history yields B.
\<close>

theorem C1_tie_goes_to_last:
  assumes "h \<noteq> []"
  shows "\<exists>l1 r l2. mostCommon (gestureCount h) = Inr r \<and>
           rev (remdups (rev h)) = l1 @ r # l2 \<and>
           (\<forall>k\<in>set l1. count_list h k \<le> count_list h r) \<and>
           (\<forall>k\<in>set l2. count_list h k < count_list h r)"
proof -
  obtain e es where gc: "gestureCount h = e # es"
    using gestureCount_nonempty [OF assms] by (cases "gestureCount h") auto
  let ?f = "\<lambda>a. countOf (gestureCount h) (fst a)"
  let ?r = "foldl (\<lambda>a b. if ?f a > ?f b then a else b) e es"
  have mc: "mostCommon (gestureCount h) = Inr (fst ?r)"
    by (simp add: mostCommon_def gc [symmetric]) (simp add: gc)
  obtain l1 l2 where sp: "e # es = l1 @ ?r # l2"
    and lo: "\<forall>x\<in>set l1. ?f x \<le> ?f ?r" and hi: "\<forall>x\<in>set l2. ?f x < ?f ?r"
    using reduce_keeps_last_maximum [of e es ?f] by blast
  have "rev (remdups (rev h)) = map fst (e # es)"
    using keys_gestureCount [of h] gc by simp
  then have keys: "rev (remdups (rev h)) = map fst l1 @ fst ?r # map fst l2"
    unfolding sp by simp
  have "\<forall>k\<in>set (map fst l1). count_list h k \<le> count_list h (fst ?r)"
    using lo by (simp add: countOf_gestureCount)
  moreover have "\<forall>k\<in>set (map fst l2). count_list h k < count_list h (fst ?r)"
    using hi by (simp add: countOf_gestureCount)
  ultimately show ?thesis
    using mc keys by blast
qed

theorem C1_tie_goes_to_last_witness:
  "foldl pushHistory [] [''A'', ''B'', ''A'', ''B'', ''C''] \<noteq> [] \<and>
   (\<exists>l1 r l2.
      mostCommon (gestureCount (foldl pushHistory [] [''A'', ''B'', ''A'', ''B'', ''C''])) = Inr r \<and>
      rev (remdups (rev (foldl pushHistory [] [''A'', ''B'', ''A'', ''B'', ''C'']))) = l1 @ r # l2 \<and>
      list_all (\<lambda>k. count_list (foldl pushHistory [] [''A'', ''B'', ''A'', ''B'', ''C'']) k
                   \<le> count_list (foldl pushHistory [] [''A'', ''B'', ''A'', ''B'', ''C'']) r) l1 \<and>
      list_all (\<lambda>k. count_list (foldl pushHistory [] [''A'', ''B'', ''A'', ''B'', ''C'']) k
                   < count_list (foldl pushHistory [] [''A'', ''B'', ''A'', ''B'', ''C'']) r) l2) \<and>
   mostCommon (gestureCount (foldl pushHistory [] [''A'', ''B'', ''A'', ''B'', ''C''])) = Inr ''B'' \<and>
   rev (remdups (rev (foldl pushHistory [] [''A'', ''B'', ''A'', ''B'', ''C'']))) = [''A'', ''B'', ''C'']"
proof -
  have h: "foldl pushHistory [] [''A'', ''B'', ''A'', ''B'', ''C''] = [''A'', ''B'', ''A'', ''B'', ''C'']"
    by (simp add: pushHistory_def)
  have ne: "foldl pushHistory [] [''A'', ''B'', ''A'', ''B'', ''C''] \<noteq> []"
    unfolding h by simp
  have b: "mostCommon (gestureCount (foldl pushHistory [] [''A'', ''B'', ''A'', ''B'', ''C''])) = Inr ''B''"
    unfolding h by (simp add: mostCommon_def gestureCount_def countOf_def)
  have k: "rev (remdups (rev (foldl pushHistory [] [''A'', ''B'', ''A'', ''B'', ''C'']))) = [''A'', ''B'', ''C'']"
    unfolding h by simp
  show ?thesis
    using C1_tie_goes_to_last [OF ne] ne b k
    by (simp add: list_all_iff)
qed

end
